theory Spec2Isabelle
  imports Main
begin

section \<open>SPA modules (nengo/spa/module.py): data model\<close>

text \<open>
  A \<open>Module\<close> is a Python object: it has an identity, mutable dictionaries and it is
  shared by reference. The embedding keeps a store from object identities to the
  fields of the object. Python dictionaries are association lists in insertion order
  (the iteration order of a \<open>dict\<close>); their keys are strings.

  The fields \<open>label\<close>, \<open>modules\<close> (\<open>_modules\<close>), \<open>inputs\<close>, \<open>outputs\<close>, \<open>vocabs\<close> and
  \<open>networks\<close> are the data attributes that the class itself reads; \<open>attrs\<close> holds the
  attributes of every other name, the ones \<open>__setattr__\<close> inspects for a module already
  bound.
\<close>

type_synonym ref = nat
type_synonym objref = nat
type_synonym vocab = nat
type_synonym vmref = nat
type_synonym 'v pydict = "(string \<times> 'v) list"

text \<open>The vocabulary half of a port: an \<open>int\<close> dimension, a Vocabulary, or \<open>None\<close>.\<close>

datatype binding = Dim int | Voc vocab | NoVocab

type_synonym port = "objref \<times> binding"

text \<open>An entry of \<open>Network.networks\<close>: a Module, or a Network that is not one.\<close>

datatype network = ModuleNet ref | PlainNet nat

text \<open>
  A value on the right of an attribute assignment: a module, the \<open>Default\<close> marker, a
  new dictionary of modules or of ports, a string, \<open>None\<close>, a vocabulary map, a new
  list of networks, or a value of any other kind. A dictionary or list given here is
  an object of its own, which no other attribute holds.
\<close>

datatype pyval =
    VModule ref
  | VDefault
  | VRegistry "(string \<times> ref) list"
  | VPorts "(string \<times> objref \<times> binding) list"
  | VStr string
  | VNone
  | VVocabs vmref
  | VNetworks "network list"
  | VOther nat

record module_obj =
  label :: "string option"
  attrs :: "pyval pydict"
  modules :: "ref pydict"
  inputs :: "port pydict"
  outputs :: "port pydict"
  vocabs :: vmref
  networks :: "network list"

datatype warning = DeprecationWarning

record state =
  mods :: "ref \<Rightarrow> module_obj"
  vmaps :: "vmref \<Rightarrow> (int \<times> vocab) list"
  next_vocab :: nat
  warnings :: "warning list"

datatype spa_msg =
    CannotReassign string pyval
  | MustBeSet ref
  | CouldNotFindModule string
  | CouldNotFindInput string
  | CouldNotFindOutput string

text \<open>
  Modelled from the spec: the exception classes of \<open>nengo.exceptions\<close> are not part of
  the source file. The spec lists the errors of resolution as kinds of their own, raised
  in place of an internal lookup miss, so \<open>SpaModuleError\<close> is a constructor different
  from \<open>KeyError\<close> and a handler of \<open>KeyError\<close> lets it pass.

  \<open>ValidationError tb\<close>: \<open>tb\<close> tells whether the traceback of the failed write is still
  attached. \<open>OtherError\<close> stands for any exception from outside the module (a hook, the
  configuration, the base class).
\<close>

datatype error =
    KeyError
  | SpaModuleError spa_msg
  | ValidationError bool
  | InvalidDimensionError int
  | OtherError nat

subsection \<open>Dictionaries and strings\<close>

definition dict_get :: "'v pydict \<Rightarrow> string \<Rightarrow> 'v option" where
  "dict_get d k = map_of d k"

definition dict_contains :: "'v pydict \<Rightarrow> string \<Rightarrow> bool" where
  "dict_contains d k = (dict_get d k \<noteq> None)"

text \<open>\<open>d[k] = v\<close>: an existing key keeps its position, a new key goes last.\<close>

fun dict_set :: "'v pydict \<Rightarrow> string \<Rightarrow> 'v \<Rightarrow> 'v pydict" where
  "dict_set [] k v = [(k, v)]"
| "dict_set ((k', v') # d) k v =
     (if k' = k then (k, v) # d else (k', v') # dict_set d k v)"

text \<open>\<open>s.split(sep, 1)\<close> and \<open>s.rsplit(sep, 1)\<close> for a separator of one character.\<close>

definition split1 :: "char \<Rightarrow> string \<Rightarrow> string list" where
  "split1 sep s =
     (if sep \<in> set s
      then [takeWhile (\<lambda>c. c \<noteq> sep) s, tl (dropWhile (\<lambda>c. c \<noteq> sep) s)]
      else [s])"

definition rsplit1 :: "char \<Rightarrow> string \<Rightarrow> string list" where
  "rsplit1 sep s =
     (if sep \<in> set s
      then [rev (tl (dropWhile (\<lambda>c. c \<noteq> sep) (rev s))),
            rev (takeWhile (\<lambda>c. c \<noteq> sep) (rev s))]
      else [s])"

subsection \<open>Name resolution\<close>

text \<open>
  \<open>try: ... except KeyError: raise SpaModuleError(...)\<close>: a \<open>KeyError\<close> leaving the body is
  replaced, every other outcome passes.
\<close>

fun except_KeyError :: "spa_msg \<Rightarrow> (error + 'a) \<times> state \<Rightarrow> (error + 'a) \<times> state" where
  "except_KeyError m (Inl KeyError, s) = (Inl (SpaModuleError m), s)"
| "except_KeyError m r = r"

definition warn :: "warning \<Rightarrow> state \<Rightarrow> state" where
  "warn w s = s\<lparr>warnings := warnings s @ [w]\<rparr>"

text \<open>
  The methods call themselves on other objects of the store, which may refer to each
  other in a cycle; the first argument bounds the depth of the calls, and \<open>None\<close> says
  that the bound was reached (Python's recursion limit).
\<close>

fun get_module :: "nat \<Rightarrow> state \<Rightarrow> ref \<Rightarrow> string \<Rightarrow> bool \<Rightarrow> ((error + ref) \<times> state) option" where
  "get_module 0 s self name strip_output = None"
| "get_module (Suc depth) s self name strip_output =
     map_option (except_KeyError (CouldNotFindModule name))
       (let components = split1 CHR ''.'' name in
        if length components > 1 then
          (let head = components ! 0; tail = components ! 1 in
           case dict_get (modules (mods s self)) head of
             None \<Rightarrow> Some (Inl KeyError, s)
           | Some child \<Rightarrow> get_module depth s child tail strip_output)
        else if dict_contains (modules (mods s self)) name then
          (case dict_get (modules (mods s self)) name of
             None \<Rightarrow> Some (Inl KeyError, s)
           | Some child \<Rightarrow> Some (Inr child, s))
        else if strip_output \<and> (dict_contains (inputs (mods s self)) name
                 \<or> dict_contains (outputs (mods s self)) name) then
          Some (Inr self, s)
        else Some (Inl KeyError, s))"

fun get_module_input :: "nat \<Rightarrow> state \<Rightarrow> ref \<Rightarrow> string \<Rightarrow> ((error + port) \<times> state) option" where
  "get_module_input 0 s self name = None"
| "get_module_input (Suc depth) s self name =
     map_option (except_KeyError (CouldNotFindInput name))
       (let components = split1 CHR ''.'' name in
        if length components > 1 then
          (let head = components ! 0; tail = components ! 1 in
           case dict_get (modules (mods s self)) head of
             None \<Rightarrow> Some (Inl KeyError, s)
           | Some child \<Rightarrow> get_module_input depth s child tail)
        else if dict_contains (inputs (mods s self)) name then
          (case dict_get (inputs (mods s self)) name of
             None \<Rightarrow> Some (Inl KeyError, s)
           | Some p \<Rightarrow> Some (Inr p, s))
        else if dict_contains (modules (mods s self)) name then
          (case dict_get (modules (mods s self)) name of
             None \<Rightarrow> Some (Inl KeyError, s)
           | Some child \<Rightarrow> get_module_input depth s child ''default'')
        else
          (let components = rsplit1 CHR ''_'' name in
           if length components > 1 then
             (let head = components ! 0; tail = components ! 1 in
              case dict_get (modules (mods s self)) head of
                None \<Rightarrow> Some (Inl KeyError, s)
              | Some child \<Rightarrow>
                  (case get_module_input depth s child tail of
                     None \<Rightarrow> None
                   | Some (Inl e, s') \<Rightarrow> Some (Inl e, s')
                   | Some (Inr inp, s') \<Rightarrow> Some (Inr inp, warn DeprecationWarning s')))
           else Some (Inl KeyError, s)))"

fun get_module_output :: "nat \<Rightarrow> state \<Rightarrow> ref \<Rightarrow> string \<Rightarrow> ((error + port) \<times> state) option" where
  "get_module_output 0 s self name = None"
| "get_module_output (Suc depth) s self name =
     map_option (except_KeyError (CouldNotFindOutput name))
       (let components = split1 CHR ''.'' name in
        if length components > 1 then
          (let head = components ! 0; tail = components ! 1 in
           case dict_get (modules (mods s self)) head of
             None \<Rightarrow> Some (Inl KeyError, s)
           | Some child \<Rightarrow> get_module_output depth s child tail)
        else if dict_contains (outputs (mods s self)) name then
          (case dict_get (outputs (mods s self)) name of
             None \<Rightarrow> Some (Inl KeyError, s)
           | Some p \<Rightarrow> Some (Inr p, s))
        else if dict_contains (modules (mods s self)) name then
          (case dict_get (modules (mods s self)) name of
             None \<Rightarrow> Some (Inl KeyError, s)
           | Some child \<Rightarrow> get_module_output depth s child ''default'')
        else
          (let components = rsplit1 CHR ''_'' name in
           if length components > 1 then
             (let head = components ! 0; tail = components ! 1 in
              case dict_get (modules (mods s self)) head of
                None \<Rightarrow> Some (Inl KeyError, s)
              | Some child \<Rightarrow>
                  (case get_module_output depth s child tail of
                     None \<Rightarrow> None
                   | Some (Inl e, s') \<Rightarrow> Some (Inl e, s')
                   | Some (Inr out, s') \<Rightarrow> Some (Inr out, warn DeprecationWarning s')))
           else Some (Inl KeyError, s)))"

text \<open>\<open>get_input_vocab\<close>, \<open>get_output_vocab\<close>: element \<open>[1]\<close> of the resolved pair.\<close>

definition get_input_vocab :: "nat \<Rightarrow> state \<Rightarrow> ref \<Rightarrow> string \<Rightarrow> ((error + binding) \<times> state) option" where
  "get_input_vocab depth s self name =
     (case get_module_input depth s self name of
        None \<Rightarrow> None
      | Some (Inl e, s') \<Rightarrow> Some (Inl e, s')
      | Some (Inr p, s') \<Rightarrow> Some (Inr (snd p), s'))"

definition get_output_vocab :: "nat \<Rightarrow> state \<Rightarrow> ref \<Rightarrow> string \<Rightarrow> ((error + binding) \<times> state) option" where
  "get_output_vocab depth s self name =
     (case get_module_output depth s self name of
        None \<Rightarrow> None
      | Some (Inl e, s') \<Rightarrow> Some (Inl e, s')
      | Some (Inr p, s') \<Rightarrow> Some (Inr (snd p), s'))"

subsection \<open>Enumeration of the port names\<close>

text \<open>
  The generators \<open>get_module_inputs\<close> and \<open>get_module_outputs\<close>, as the list of the values
  they yield. \<open>yield_names name ks\<close> is the inner loop over the port names \<open>ks\<close> of one
  child, \<open>'%s_%s' % (name, inp)\<close> its second branch.
\<close>

fun yield_names :: "string \<Rightarrow> string list \<Rightarrow> string list" where
  "yield_names name [] = []"
| "yield_names name (inp # rest) =
     (if inp = ''default'' then name else name @ ''_'' @ inp) # yield_names name rest"

fun module_inputs_loop :: "state \<Rightarrow> ref pydict \<Rightarrow> string list" where
  "module_inputs_loop s [] = []"
| "module_inputs_loop s ((name, module) # rest) =
     yield_names name (map fst (inputs (mods s module))) @ module_inputs_loop s rest"

definition get_module_inputs :: "state \<Rightarrow> ref \<Rightarrow> string list" where
  "get_module_inputs s self = module_inputs_loop s (modules (mods s self))"

fun module_outputs_loop :: "state \<Rightarrow> ref pydict \<Rightarrow> string list" where
  "module_outputs_loop s [] = []"
| "module_outputs_loop s ((name, module) # rest) =
     yield_names name (map fst (outputs (mods s module))) @ module_outputs_loop s rest"

definition get_module_outputs :: "state \<Rightarrow> ref \<Rightarrow> string list" where
  "get_module_outputs s self = module_outputs_loop s (modules (mods s self))"

subsection \<open>Registration\<close>

text \<open>
  Modelled from the spec: \<open>VocabularyMap.get_or_create\<close> (nengo.spa.vocab) is not part of
  the source file. A dimension that is not positive fails; the first call for a dimension
  makes a new handle and caches it, a later call returns the cached handle.
\<close>

definition get_or_create :: "vmref \<Rightarrow> int \<Rightarrow> state \<Rightarrow> (error + vocab) \<times> state" where
  "get_or_create vm d s =
     (if d < 1 then (Inl (InvalidDimensionError d), s)
      else case map_of (vmaps s vm) d of
        Some h \<Rightarrow> (Inr h, s)
      | None \<Rightarrow>
          (Inr (next_vocab s),
           s\<lparr>vmaps := (vmaps s)(vm := vmaps s vm @ [(d, next_vocab s)]),
             next_vocab := Suc (next_vocab s)\<rparr>))"

definition update_module :: "ref \<Rightarrow> (module_obj \<Rightarrow> module_obj) \<Rightarrow> state \<Rightarrow> state" where
  "update_module r f s = s\<lparr>mods := (mods s)(r := f (mods s r))\<rparr>"

text \<open>
  The two loops of \<open>__set_module\<close> over the items of \<open>module.inputs\<close> and of
  \<open>module.outputs\<close>. \<open>self.vocabs\<close> is read at every iteration; an exception of
  \<open>get_or_create\<close> leaves the loop with the ports replaced so far.
\<close>

fun resolve_inputs :: "ref \<Rightarrow> ref \<Rightarrow> port pydict \<Rightarrow> state \<Rightarrow> (error + unit) \<times> state" where
  "resolve_inputs self module [] s = (Inr (), s)"
| "resolve_inputs self module ((k, (obj, v)) # items) s =
     (case v of
        Dim d \<Rightarrow>
          (case get_or_create (vocabs (mods s self)) d s of
             (Inl e, s') \<Rightarrow> (Inl e, s')
           | (Inr h, s') \<Rightarrow>
               resolve_inputs self module items
                 (update_module module (\<lambda>m. m\<lparr>inputs := dict_set (inputs m) k (obj, Voc h)\<rparr>) s'))
      | _ \<Rightarrow> resolve_inputs self module items s)"

fun resolve_outputs :: "ref \<Rightarrow> ref \<Rightarrow> port pydict \<Rightarrow> state \<Rightarrow> (error + unit) \<times> state" where
  "resolve_outputs self module [] s = (Inr (), s)"
| "resolve_outputs self module ((k, (obj, v)) # items) s =
     (case v of
        Dim d \<Rightarrow>
          (case get_or_create (vocabs (mods s self)) d s of
             (Inl e, s') \<Rightarrow> (Inl e, s')
           | (Inr h, s') \<Rightarrow>
               resolve_outputs self module items
                 (update_module module (\<lambda>m. m\<lparr>outputs := dict_set (outputs m) k (obj, Voc h)\<rparr>) s'))
      | _ \<Rightarrow> resolve_outputs self module items s)"

text \<open>
  \<open>on_add\<close> is a method that subclasses override: a parameter, called as
  \<open>on_add module self\<close> on the state reached.
\<close>

type_synonym hook = "ref \<Rightarrow> ref \<Rightarrow> state \<Rightarrow> (error + unit) \<times> state"

definition base_on_add :: hook where
  "base_on_add module spa s = (Inr (), s)"

definition set_module :: "hook \<Rightarrow> state \<Rightarrow> ref \<Rightarrow> string \<Rightarrow> ref \<Rightarrow> (error + unit) \<times> state" where
  "set_module on_add s self key module =
     (let s1 = (if label (mods s module) = None
                then update_module module (\<lambda>m. m\<lparr>label := Some key\<rparr>) s else s);
          s2 = update_module self (\<lambda>m. m\<lparr>modules := dict_set (modules m) key module\<rparr>) s1
      in case resolve_inputs self module (inputs (mods s2 module)) s2 of
           (Inl e, s3) \<Rightarrow> (Inl e, s3)
         | (Inr _, s3) \<Rightarrow>
             (case resolve_outputs self module (outputs (mods s3 module)) s3 of
                (Inl e, s4) \<Rightarrow> (Inl e, s4)
              | (Inr _, s4) \<Rightarrow> on_add module self s4))"

text \<open>
  What \<open>__setattr__\<close> and \<open>__exit__\<close> take from outside the source file:
  \<open>simplified\<close> is \<open>rc.getboolean('exceptions', 'simplified')\<close>, \<open>config_default key\<close> is
  \<open>Config.default(type(self), key)\<close>, \<open>validate\<close> is the check of the base class's
  attribute write, \<open>net_exit\<close> is \<open>Network.__exit__\<close> (the exception it raises, if any).
\<close>

record env =
  simplified :: bool
  config_default :: "string \<Rightarrow> error + pyval"
  validate :: "string \<Rightarrow> pyval \<Rightarrow> bool"
  on_add :: hook
  net_exit :: "state \<Rightarrow> ref \<Rightarrow> error option"







subsection \<open>Closing the scope\<close>

datatype exit_result = ReturnFalse | ReturnNone | Raise error

text \<open>The loop of \<open>__exit__\<close> over \<open>self.networks\<close>.\<close>

fun check_networks :: "ref set \<Rightarrow> network list \<Rightarrow> exit_result" where
  "check_networks module_list [] = ReturnNone"
| "check_networks module_list (net # nets) =
     (case net of
        ModuleNet r \<Rightarrow>
          (if r \<notin> module_list then Raise (SpaModuleError (MustBeSet r))
           else check_networks module_list nets)
      | PlainNet n \<Rightarrow> check_networks module_list nets)"

text \<open>\<open>ex_type\<close> is the exception in flight when the scope closes, if any.\<close>

definition module_exit :: "env \<Rightarrow> state \<Rightarrow> ref \<Rightarrow> error option \<Rightarrow> exit_result" where
  "module_exit E s self ex_type =
     (case net_exit E s self of
        Some e \<Rightarrow> Raise e
      | None \<Rightarrow>
          if ex_type \<noteq> None then ReturnFalse
          else check_networks (set (map snd (modules (mods s self)))) (networks (mods s self)))"

text \<open>
  The \<open>with\<close> statement around the scope: the exception that propagates from it, if any.
  Neither \<open>False\<close> nor \<open>None\<close> suppresses the exception in flight.
\<close>

definition close_scope :: "env \<Rightarrow> state \<Rightarrow> ref \<Rightarrow> error option \<Rightarrow> error option" where
  "close_scope E s self ex_type =
     (case module_exit E s self ex_type of
        Raise e \<Rightarrow> Some e
      | ReturnFalse \<Rightarrow> ex_type
      | ReturnNone \<Rightarrow> ex_type)"

section \<open>Example stores\<close>

definition blank_module :: module_obj where
  "blank_module =
     \<lparr>label = None, attrs = [], modules = [], inputs = [], outputs = [],
      vocabs = 0, networks = []\<rparr>"

text \<open>
  Module 0 has the children \<open>B\<close> (module 1, ports \<open>X\<close>) and \<open>M\<close> (module 2, the only
  output port \<open>default\<close>).
\<close>

definition demo_state :: state where
  "demo_state =
     \<lparr>mods = (\<lambda>r. blank_module)
        (0 := blank_module\<lparr>attrs := [(''B'', VModule 1), (''M'', VModule 2)],
                            modules := [(''B'', 1), (''M'', 2)]\<rparr>,
         1 := blank_module\<lparr>label := Some ''B'', inputs := [(''X'', (10, Voc 0))],
                            outputs := [(''X'', (11, Voc 0))]\<rparr>,
         2 := blank_module\<lparr>label := Some ''M'', outputs := [(''default'', (12, Voc 1))]\<rparr>),
      vmaps = (\<lambda>v. [])(0 := [(16, 0), (32, 1)]),
      next_vocab = 2,
      warnings = []\<rparr>"

text \<open>As \<open>demo_state\<close>, and module 0 has an output port of its own named \<open>M\<close>.\<close>

definition shadow_state :: state where
  "shadow_state =
     \<lparr>mods = (\<lambda>r. blank_module)
        (0 := blank_module\<lparr>attrs := [(''M'', VModule 2)], modules := [(''M'', 2)],
                            outputs := [(''M'', (20, NoVocab))]\<rparr>,
         2 := blank_module\<lparr>label := Some ''M'', outputs := [(''default'', (12, Voc 1))]\<rparr>),
      vmaps = (\<lambda>v. [])(0 := [(32, 1)]),
      next_vocab = 2,
      warnings = []\<rparr>"

text \<open>Module 0 has an input port and an output port whose name is the empty string.\<close>

definition empty_name_state :: state where
  "empty_name_state =
     \<lparr>mods = (\<lambda>r. blank_module)
        (0 := blank_module\<lparr>inputs := [('''', (7, NoVocab))], outputs := [('''', (8, NoVocab))]\<rparr>),
      vmaps = (\<lambda>v. []),
      next_vocab = 0,
      warnings = []\<rparr>"

text \<open>Module 0 has the children \<open>m1\<close> (input port \<open>default\<close>) and \<open>m2\<close> (input ports \<open>a\<close>, \<open>b\<close>).\<close>

definition listing_state :: state where
  "listing_state =
     \<lparr>mods = (\<lambda>r. blank_module)
        (0 := blank_module\<lparr>attrs := [(''m1'', VModule 1), (''m2'', VModule 2)],
                            modules := [(''m1'', 1), (''m2'', 2)]\<rparr>,
         1 := blank_module\<lparr>label := Some ''m1'', inputs := [(''default'', (10, Voc 0))]\<rparr>,
         2 := blank_module\<lparr>label := Some ''m2'',
                            inputs := [(''a'', (11, Voc 0)), (''b'', (12, NoVocab))]\<rparr>),
      vmaps = (\<lambda>v. [])(0 := [(16, 0)]),
      next_vocab = 1,
      warnings = []\<rparr>"

text \<open>
  Module 0 has an output port \<open>own\<close> and the children \<open>M\<close> (module 2, the only output
  port \<open>default\<close>) and \<open>my_mod\<close> (module 3, output port \<open>x\<close>).
\<close>

definition fallback_state :: state where
  "fallback_state =
     \<lparr>mods = (\<lambda>r. blank_module)
        (0 := blank_module\<lparr>attrs := [(''M'', VModule 2), (''my_mod'', VModule 3)],
                            modules := [(''M'', 2), (''my_mod'', 3)],
                            outputs := [(''own'', (30, NoVocab))]\<rparr>,
         2 := blank_module\<lparr>label := Some ''M'', outputs := [(''default'', (12, Voc 1))]\<rparr>,
         3 := blank_module\<lparr>label := Some ''my_mod'', outputs := [(''x'', (13, NoVocab))]\<rparr>),
      vmaps = (\<lambda>v. [])(0 := [(32, 1)]),
      next_vocab = 2,
      warnings = []\<rparr>"

text \<open>
  An environment in which every write is valid and the hook is the base class's
  \<open>on_add\<close>, which does nothing.
\<close>

definition demo_env :: env where
  "demo_env =
     \<lparr>simplified = False,
      config_default = (\<lambda>key. Inr (VOther 0)),
      validate = (\<lambda>key v. True),
      on_add = base_on_add,
      net_exit = (\<lambda>s self. None)\<rparr>"

text \<open>
  Module 0 has registered module 1 as \<open>a\<close>; its scope holds a plain network, module 1
  and module 2, which was never assigned to an attribute.
\<close>

definition scope_state :: state where
  "scope_state =
     \<lparr>mods = (\<lambda>r. blank_module)
        (0 := blank_module\<lparr>attrs := [(''a'', VModule 1)], modules := [(''a'', 1)],
                            networks := [PlainNet 5, ModuleNet 1, ModuleNet 2]\<rparr>,
         1 := blank_module\<lparr>label := Some ''a''\<rparr>),
      vmaps = (\<lambda>v. []),
      next_vocab = 0,
      warnings = []\<rparr>"

text \<open>
  Nothing is registered yet. Module 0 uses the vocabulary map 0, which has a vocabulary
  of dimension 16; module 1 has a vocabulary map of its own (map 1) and ports that give
  a dimension.
\<close>

definition reg_state :: state where
  "reg_state =
     \<lparr>mods = (\<lambda>r. blank_module)
        (1 := blank_module\<lparr>inputs := [(''default'', (10, Dim 16)), (''aux'', (11, NoVocab))],
                            outputs := [(''default'', (12, Dim 32)), (''copy'', (13, Dim 16))],
                            vocabs := 1\<rparr>),
      vmaps = (\<lambda>v. [])(0 := [(16, 0)]),
      next_vocab = 1,
      warnings = []\<rparr>"



section \<open>Notions of the claims\<close>




text \<open>
  A binding after resolution against the table of a vocabulary map: a dimension that the
  table has is the table's vocabulary, every other binding is itself.
\<close>

definition resolve_binding :: "(int \<times> vocab) list \<Rightarrow> binding \<Rightarrow> binding" where
  "resolve_binding tab b =
     (case b of
        Dim d \<Rightarrow> (case map_of tab d of Some h \<Rightarrow> Voc h | None \<Rightarrow> Dim d)
      | _ \<Rightarrow> b)"

definition resolve_port :: "(int \<times> vocab) list \<Rightarrow> string \<times> port \<Rightarrow> string \<times> port" where
  "resolve_port tab = (\<lambda>(k, obj, b). (k, obj, resolve_binding tab b))"

section \<open>Name resolution: properties\<close>

subsection \<open>Splitting\<close>

lemma takeWhile_upto_sep: "sep \<notin> set h \<Longrightarrow> takeWhile (\<lambda>c. c \<noteq> sep) (h @ sep # t) = h"
  by (induction h) auto

lemma dropWhile_upto_sep:
  "sep \<notin> set h \<Longrightarrow> dropWhile (\<lambda>c. c \<noteq> sep) (h @ sep # t) = sep # t"
  by (induction h) auto

lemma split1_no_sep: "sep \<notin> set s \<Longrightarrow> split1 sep s = [s]"
  by (simp add: split1_def)

lemma split1_join: "sep \<notin> set h \<Longrightarrow> split1 sep (h @ sep # t) = [h, t]"
  by (simp add: split1_def takeWhile_upto_sep dropWhile_upto_sep)

lemma rsplit1_no_sep: "sep \<notin> set s \<Longrightarrow> rsplit1 sep s = [s]"
  by (simp add: rsplit1_def)

lemma rsplit1_join: "sep \<notin> set t \<Longrightarrow> rsplit1 sep (h @ sep # t) = [h, t]"
  by (simp add: rsplit1_def takeWhile_upto_sep dropWhile_upto_sep)

subsection \<open>The handler of KeyError\<close>

lemma except_KeyError_cases:
  "except_KeyError m (r0, s0) = (r, s') \<Longrightarrow>
     s' = s0 \<and> ((r = r0 \<and> r0 \<noteq> Inl KeyError)
                \<or> (r0 = Inl KeyError \<and> r = Inl (SpaModuleError m)))"
  by (cases "(m, (r0, s0))" rule: except_KeyError.cases) auto

lemma map_except_cases:
  "map_option (except_KeyError m) x = Some (r, s') \<Longrightarrow>
     \<exists>r0. x = Some (r0, s') \<and> ((r = r0 \<and> r0 \<noteq> Inl KeyError)
                \<or> (r0 = Inl KeyError \<and> r = Inl (SpaModuleError m)))"
  by (cases x) (auto dest!: except_KeyError_cases)

lemma except_KeyError_not_KeyError: "except_KeyError m r \<noteq> (Inl KeyError, s')"
  by (cases "(m, r)" rule: except_KeyError.cases) auto

lemma except_KeyError_id: "fst r \<noteq> Inl KeyError \<Longrightarrow> except_KeyError m r = r"
  by (cases "(m, r)" rule: except_KeyError.cases) auto

lemma map_except_id:
  assumes "\<And>s'. x \<noteq> Some (Inl KeyError, s')"
  shows "map_option (except_KeyError m) x = x"
proof (cases x)
  case None
  then show ?thesis by simp
next
  case (Some r)
  with assms[of "snd r"] have "fst r \<noteq> Inl KeyError"
    by (cases r) auto
  with Some show ?thesis
    by (simp add: except_KeyError_id)
qed


lemma get_module_input_not_KeyError:
  "get_module_input depth s self name \<noteq> Some (Inl KeyError, s')"
  by (cases depth) (auto simp: except_KeyError_not_KeyError)

lemma get_module_output_not_KeyError:
  "get_module_output depth s self name \<noteq> Some (Inl KeyError, s')"
  by (cases depth) (auto simp: except_KeyError_not_KeyError)

subsection \<open>The branches of the methods\<close>


lemma get_module_input_dotted:
  assumes "CHR ''.'' \<notin> set b" and "dict_get (modules (mods s A)) b = Some B"
  shows "get_module_input (Suc depth) s A (b @ ''.'' @ x) = get_module_input depth s B x"
  using assms by (simp add: split1_join map_except_id get_module_input_not_KeyError)

lemma get_module_output_dotted:
  assumes "CHR ''.'' \<notin> set b" and "dict_get (modules (mods s A)) b = Some B"
  shows "get_module_output (Suc depth) s A (b @ ''.'' @ x) = get_module_output depth s B x"
  using assms by (simp add: split1_join map_except_id get_module_output_not_KeyError)



lemma get_module_leaf_miss:
  assumes "CHR ''.'' \<notin> set name" and "\<not> dict_contains (modules (mods s P)) name"
    and "\<not> (so \<and> (dict_contains (inputs (mods s P)) name \<or> dict_contains (outputs (mods s P)) name))"
  shows "get_module (Suc depth) s P name so =
           Some (Inl (SpaModuleError (CouldNotFindModule name)), s)"
  using assms by (simp add: split1_no_sep)

lemma get_module_input_leaf_miss:
  assumes "CHR ''.'' \<notin> set name" and "CHR ''_'' \<notin> set name"
    and "\<not> dict_contains (inputs (mods s P)) name"
    and "\<not> dict_contains (modules (mods s P)) name"
  shows "get_module_input (Suc depth) s P name =
           Some (Inl (SpaModuleError (CouldNotFindInput name)), s)"
  using assms by (simp add: split1_no_sep rsplit1_no_sep)

lemma get_module_output_leaf_miss:
  assumes "CHR ''.'' \<notin> set name" and "CHR ''_'' \<notin> set name"
    and "\<not> dict_contains (outputs (mods s P)) name"
    and "\<not> dict_contains (modules (mods s P)) name"
  shows "get_module_output (Suc depth) s P name =
           Some (Inl (SpaModuleError (CouldNotFindOutput name)), s)"
  using assms by (simp add: split1_no_sep rsplit1_no_sep)

lemma get_module_output_own_port:
  assumes "CHR ''.'' \<notin> set name" and "dict_get (outputs (mods s A)) name = Some q"
  shows "get_module_output (Suc depth) s A name = Some (Inr q, s)"
  using assms by (simp add: split1_no_sep dict_contains_def)

lemma get_module_output_child:
  assumes "CHR ''.'' \<notin> set name" and "\<not> dict_contains (outputs (mods s A)) name"
    and "dict_get (modules (mods s A)) name = Some C"
  shows "get_module_output (Suc depth) s A name = get_module_output depth s C ''default''"
  using assms
  by (simp add: split1_no_sep dict_contains_def map_except_id get_module_output_not_KeyError)

lemma get_module_output_underscore:
  assumes "CHR ''.'' \<notin> set (h @ ''_'' @ t)" and "CHR ''_'' \<notin> set t"
    and "\<not> dict_contains (outputs (mods s A)) (h @ ''_'' @ t)"
    and "\<not> dict_contains (modules (mods s A)) (h @ ''_'' @ t)"
    and "dict_get (modules (mods s A)) h = Some C"
  shows "get_module_output (Suc depth) s A (h @ ''_'' @ t) =
           (case get_module_output depth s C t of
              None \<Rightarrow> None
            | Some (Inl e, s') \<Rightarrow> Some (Inl e, s')
            | Some (Inr out, s') \<Rightarrow> Some (Inr out, warn DeprecationWarning s'))"
proof -
  have split: "split1 CHR ''.'' (h @ ''_'' @ t) = [h @ ''_'' @ t]"
    using assms(1) by (rule split1_no_sep)
  have rsplit: "rsplit1 CHR ''_'' (h @ ''_'' @ t) = [h, t]"
    using assms(2) by (simp add: rsplit1_join)
  show ?thesis
  proof (cases "get_module_output depth s C t")
    case None
    with assms split rsplit show ?thesis by simp
  next
    case (Some r)
    obtain x s' where r: "r = (x, s')" by (cases r)
    have "x \<noteq> Inl KeyError"
      using Some r get_module_output_not_KeyError[of depth s C t s'] by auto
    with assms split rsplit Some r show ?thesis
      by (cases x) (auto simp: except_KeyError_id)
  qed
qed

subsection \<open>Dotted paths\<close>

text \<open>
  Claim C4. When module \<open>A\<close> has a registered child under a name \<open>b\<close> without a dot (such
  as \<open>B\<close>), then for every port path \<open>x\<close> the call \<open>A.get_module_output(b + "." + x)\<close> has
  the outcome of \<open>B.get_module_output(x)\<close> (the same pair, or the same error, and the same
  warnings), and likewise for \<open>get_module_input\<close>: a dotted path recurses into the direct
  child its head names. The call on \<open>A\<close> is one call deeper than the call on \<open>B\<close>.
\<close>

theorem dotted_path_recurses_into_child:
  assumes "CHR ''.'' \<notin> set b" and "dict_get (modules (mods s A)) b = Some B"
  shows "get_module_output (Suc depth) s A (b @ ''.'' @ x) = get_module_output depth s B x
       \<and> get_module_input (Suc depth) s A (b @ ''.'' @ x) = get_module_input depth s B x"
proof (rule conjI)
  show "get_module_output (Suc depth) s A (b @ ''.'' @ x) = get_module_output depth s B x"
    using assms by (rule get_module_output_dotted)
  show "get_module_input (Suc depth) s A (b @ ''.'' @ x) = get_module_input depth s B x"
    using assms by (rule get_module_input_dotted)
qed

theorem dotted_path_recurses_into_child_witness:
  "get_module_output (Suc (Suc 0)) demo_state 0 ''B.X'' = get_module_output (Suc 0) demo_state 1 ''X''
   \<and> get_module_input (Suc (Suc 0)) demo_state 0 ''B.X'' = get_module_input (Suc 0) demo_state 1 ''X''
   \<and> get_module_output (Suc 0) demo_state 1 ''X'' = Some (Inr (11, Voc 0), demo_state)
   \<and> get_module_input (Suc 0) demo_state 1 ''X'' = Some (Inr (10, Voc 0), demo_state)"
proof -
  have nodot: "CHR ''.'' \<notin> set ''B''" by simp
  have child: "dict_get (modules (mods demo_state 0)) ''B'' = Some 1"
    by (simp add: demo_state_def dict_get_def)
  have out: "get_module_output (Suc 0) demo_state 1 ''X'' = Some (Inr (11, Voc 0), demo_state)"
    by (simp add: demo_state_def blank_module_def dict_get_def dict_contains_def split1_def)
  have inp: "get_module_input (Suc 0) demo_state 1 ''X'' = Some (Inr (10, Voc 0), demo_state)"
    by (simp add: demo_state_def blank_module_def dict_get_def dict_contains_def split1_def)
  from dotted_path_recurses_into_child[OF nodot child, of "Suc 0" "''X''"] out inp
  show ?thesis by simp
qed

subsection \<open>Names that resolve to nothing\<close>

text \<open>
  Claim C8. For a name without a dot that is no input port of \<open>P\<close>, no registered child
  of \<open>P\<close> and has no underscore, \<open>P.get_module_input\<close> raises the SpaModuleError for a
  missing input, naming the name; the underscore fallback, which cannot split, adds
  nothing of its own: no other error, no warning, no change of the state.
\<close>

theorem unresolvable_single_segment_raises:
  assumes "CHR ''.'' \<notin> set name" and "CHR ''_'' \<notin> set name"
    and "\<not> dict_contains (inputs (mods s P)) name"
    and "\<not> dict_contains (modules (mods s P)) name"
  shows "get_module_input (Suc depth) s P name =
           Some (Inl (SpaModuleError (CouldNotFindInput name)), s)"
  using assms by (rule get_module_input_leaf_miss)

theorem unresolvable_single_segment_raises_witness:
  "get_module_input (Suc 0) demo_state 0 ''nonexistent'' =
     Some (Inl (SpaModuleError (CouldNotFindInput ''nonexistent'')), demo_state)"
proof -
  have "CHR ''.'' \<notin> set ''nonexistent''" and "CHR ''_'' \<notin> set ''nonexistent''"
    by simp_all
  moreover have "\<not> dict_contains (inputs (mods demo_state 0)) ''nonexistent''"
    and "\<not> dict_contains (modules (mods demo_state 0)) ''nonexistent''"
    by (simp_all add: demo_state_def blank_module_def dict_contains_def dict_get_def)
  ultimately show ?thesis
    by (rule unresolvable_single_segment_raises)
qed

subsection \<open>The empty path\<close>

text \<open>
  Claim C10, as the code has it. The empty path is one leaf segment, looked up like any
  other name: when no child of \<open>P\<close> is registered under the empty name, \<open>get_module("")\<close>
  raises the SpaModuleError for a missing module naming the empty path (unless
  \<open>strip_output\<close> is set and a port has the empty name), and \<open>get_module_input("")\<close>,
  \<open>get_module_output("")\<close> raise the SpaModuleError for a missing input or output naming
  it, when no port of that direction has the empty name.
\<close>

theorem empty_path_raises_unless_named:
  assumes "\<not> dict_contains (modules (mods s P)) ''''"
  shows "(\<not> (so \<and> (dict_contains (inputs (mods s P)) ''''
                    \<or> dict_contains (outputs (mods s P)) '''')) \<longrightarrow>
            get_module (Suc depth) s P '''' so =
              Some (Inl (SpaModuleError (CouldNotFindModule '''')), s))
       \<and> (\<not> dict_contains (inputs (mods s P)) '''' \<longrightarrow>
            get_module_input (Suc depth) s P '''' =
              Some (Inl (SpaModuleError (CouldNotFindInput '''')), s))
       \<and> (\<not> dict_contains (outputs (mods s P)) '''' \<longrightarrow>
            get_module_output (Suc depth) s P '''' =
              Some (Inl (SpaModuleError (CouldNotFindOutput '''')), s))"
proof -
  have nodot: "CHR ''.'' \<notin> set ''''" and nounder: "CHR ''_'' \<notin> set ''''"
    by simp_all
  show ?thesis
  proof (intro conjI impI)
    assume "\<not> (so \<and> (dict_contains (inputs (mods s P)) ''''
                    \<or> dict_contains (outputs (mods s P)) ''''))"
    with nodot assms
    show "get_module (Suc depth) s P '''' so =
            Some (Inl (SpaModuleError (CouldNotFindModule '''')), s)"
      by (rule get_module_leaf_miss)
  next
    assume "\<not> dict_contains (inputs (mods s P)) ''''"
    from nodot nounder this assms
    show "get_module_input (Suc depth) s P '''' =
            Some (Inl (SpaModuleError (CouldNotFindInput '''')), s)"
      by (rule get_module_input_leaf_miss)
  next
    assume "\<not> dict_contains (outputs (mods s P)) ''''"
    from nodot nounder this assms
    show "get_module_output (Suc depth) s P '''' =
            Some (Inl (SpaModuleError (CouldNotFindOutput '''')), s)"
      by (rule get_module_output_leaf_miss)
  qed
qed

theorem empty_path_raises_unless_named_witness:
  "get_module (Suc 0) demo_state 0 '''' True =
     Some (Inl (SpaModuleError (CouldNotFindModule '''')), demo_state)
   \<and> get_module_input (Suc 0) demo_state 0 '''' =
     Some (Inl (SpaModuleError (CouldNotFindInput '''')), demo_state)
   \<and> get_module_output (Suc 0) demo_state 0 '''' =
     Some (Inl (SpaModuleError (CouldNotFindOutput '''')), demo_state)"
proof -
  have "\<not> dict_contains (modules (mods demo_state 0)) ''''"
    by (simp add: demo_state_def dict_contains_def dict_get_def)
  moreover have "\<not> dict_contains (inputs (mods demo_state 0)) ''''"
    and "\<not> dict_contains (outputs (mods demo_state 0)) ''''"
    by (simp_all add: demo_state_def blank_module_def dict_contains_def dict_get_def)
  ultimately show ?thesis
    using empty_path_raises_unless_named[of demo_state 0 True "0"] by simp
qed

text \<open>
  The claim as stated fails on a module that has a port named by the empty string:
  the empty path resolves to that port.
\<close>

theorem empty_name_port_resolves:
  "get_module_input (Suc 0) empty_name_state 0 '''' = Some (Inr (7, NoVocab), empty_name_state)
   \<and> get_module_output (Suc 0) empty_name_state 0 '''' = Some (Inr (8, NoVocab), empty_name_state)
   \<and> get_module (Suc 0) empty_name_state 0 '''' True = Some (Inr 0, empty_name_state)"
  by (simp add: empty_name_state_def blank_module_def dict_get_def dict_contains_def split1_def)

subsection \<open>What a failed resolution reports\<close>












subsection \<open>The underscore notation\<close>

text \<open>
  Claim C5, as the code has it. Let \<open>A\<close> have a registered child under a dot-free name
  \<open>m\<close> (such as \<open>M\<close>) whose only output port is \<open>default\<close>, and let \<open>A\<close> have no output
  port of its own named \<open>m\<close> or \<open>m_default\<close> and no child named \<open>m_default\<close>. Then
  \<open>A.get_module_output(m + "_default")\<close> returns the pair that \<open>A.get_module_output(m)\<close>
  returns and adds one DeprecationWarning, and \<open>A.get_module_output(m)\<close> adds none.
  In general a name of \<open>A\<close>'s own output ports resolves to that port; otherwise the name
  of a child resolves to the child's \<open>default\<close>; only otherwise the name is split at its
  last underscore (the part after it has no underscore) and the port is looked up in the
  child named by the part before it, with a DeprecationWarning when that succeeds.
\<close>

theorem underscore_fallback_default_port:
  assumes "CHR ''.'' \<notin> set m"
    and "dict_get (modules (mods s A)) m = Some M"
    and "outputs (mods s M) = [(''default'', p)]"
    and "\<not> dict_contains (outputs (mods s A)) m"
    and "\<not> dict_contains (outputs (mods s A)) (m @ ''_default'')"
    and "\<not> dict_contains (modules (mods s A)) (m @ ''_default'')"
  shows "get_module_output (Suc (Suc depth)) s A m = Some (Inr p, s)
       \<and> get_module_output (Suc (Suc depth)) s A (m @ ''_default'') =
           Some (Inr p, warn DeprecationWarning s)
       \<and> warnings (warn DeprecationWarning s) = warnings s @ [DeprecationWarning]
       \<and> (CHR ''.'' \<notin> set n \<and> dict_get (outputs (mods s A)) n = Some q \<longrightarrow>
            get_module_output (Suc depth) s A n = Some (Inr q, s))
       \<and> (CHR ''.'' \<notin> set c \<and> \<not> dict_contains (outputs (mods s A)) c
            \<and> dict_get (modules (mods s A)) c = Some C \<longrightarrow>
            get_module_output (Suc depth) s A c = get_module_output depth s C ''default'')
       \<and> (CHR ''.'' \<notin> set (h @ ''_'' @ t) \<and> CHR ''_'' \<notin> set t
            \<and> \<not> dict_contains (outputs (mods s A)) (h @ ''_'' @ t)
            \<and> \<not> dict_contains (modules (mods s A)) (h @ ''_'' @ t)
            \<and> dict_get (modules (mods s A)) h = Some D \<longrightarrow>
            get_module_output (Suc depth) s A (h @ ''_'' @ t) =
              (case get_module_output depth s D t of
                 None \<Rightarrow> None
               | Some (Inl e, s') \<Rightarrow> Some (Inl e, s')
               | Some (Inr out, s') \<Rightarrow> Some (Inr out, warn DeprecationWarning s')))"
proof -
  have nodot_default: "CHR ''.'' \<notin> set ''default''"
    by simp
  have own: "dict_get (outputs (mods s M)) ''default'' = Some p"
    using assms(3) by (simp add: dict_get_def)
  have inner: "get_module_output (Suc depth) s M ''default'' = Some (Inr p, s)"
    using nodot_default own by (rule get_module_output_own_port)
  have bare: "get_module_output (Suc (Suc depth)) s A m = Some (Inr p, s)"
    using get_module_output_child[OF assms(1) assms(4) assms(2), of "Suc depth"] inner
    by (simp del: get_module_output.simps)
  have nodot_name: "CHR ''.'' \<notin> set (m @ ''_'' @ ''default'')"
    using assms(1) by simp
  have nounder: "CHR ''_'' \<notin> set ''default''"
    by simp
  have "get_module_output (Suc (Suc depth)) s A (m @ ''_'' @ ''default'') =
          (case get_module_output (Suc depth) s M ''default'' of
             None \<Rightarrow> None
           | Some (Inl e, s') \<Rightarrow> Some (Inl e, s')
           | Some (Inr out, s') \<Rightarrow> Some (Inr out, warn DeprecationWarning s'))"
    using nodot_name nounder assms(5) assms(6) assms(2)
    by (intro get_module_output_underscore) simp_all
  then have legacy: "get_module_output (Suc (Suc depth)) s A (m @ ''_default'') =
      Some (Inr p, warn DeprecationWarning s)"
    using inner by (simp del: get_module_output.simps)
  have w: "warnings (warn DeprecationWarning s) = warnings s @ [DeprecationWarning]"
    by (simp add: warn_def)
  have first: "CHR ''.'' \<notin> set n \<and> dict_get (outputs (mods s A)) n = Some q \<longrightarrow>
            get_module_output (Suc depth) s A n = Some (Inr q, s)"
  proof (intro impI)
    assume "CHR ''.'' \<notin> set n \<and> dict_get (outputs (mods s A)) n = Some q"
    then show "get_module_output (Suc depth) s A n = Some (Inr q, s)"
      by (intro get_module_output_own_port) simp_all
  qed
  have second: "CHR ''.'' \<notin> set c \<and> \<not> dict_contains (outputs (mods s A)) c
            \<and> dict_get (modules (mods s A)) c = Some C \<longrightarrow>
            get_module_output (Suc depth) s A c = get_module_output depth s C ''default''"
  proof (intro impI)
    assume "CHR ''.'' \<notin> set c \<and> \<not> dict_contains (outputs (mods s A)) c
            \<and> dict_get (modules (mods s A)) c = Some C"
    then show "get_module_output (Suc depth) s A c = get_module_output depth s C ''default''"
      by (intro get_module_output_child) simp_all
  qed
  have third: "CHR ''.'' \<notin> set (h @ ''_'' @ t) \<and> CHR ''_'' \<notin> set t
            \<and> \<not> dict_contains (outputs (mods s A)) (h @ ''_'' @ t)
            \<and> \<not> dict_contains (modules (mods s A)) (h @ ''_'' @ t)
            \<and> dict_get (modules (mods s A)) h = Some D \<longrightarrow>
            get_module_output (Suc depth) s A (h @ ''_'' @ t) =
              (case get_module_output depth s D t of
                 None \<Rightarrow> None
               | Some (Inl e, s') \<Rightarrow> Some (Inl e, s')
               | Some (Inr out, s') \<Rightarrow> Some (Inr out, warn DeprecationWarning s'))"
  proof (intro impI)
    assume "CHR ''.'' \<notin> set (h @ ''_'' @ t) \<and> CHR ''_'' \<notin> set t
            \<and> \<not> dict_contains (outputs (mods s A)) (h @ ''_'' @ t)
            \<and> \<not> dict_contains (modules (mods s A)) (h @ ''_'' @ t)
            \<and> dict_get (modules (mods s A)) h = Some D"
    then show "get_module_output (Suc depth) s A (h @ ''_'' @ t) =
              (case get_module_output depth s D t of
                 None \<Rightarrow> None
               | Some (Inl e, s') \<Rightarrow> Some (Inl e, s')
               | Some (Inr out, s') \<Rightarrow> Some (Inr out, warn DeprecationWarning s'))"
      by (intro get_module_output_underscore) simp_all
  qed
  from bare legacy w first second third show ?thesis
    by (intro conjI)
qed

theorem underscore_fallback_default_port_witness:
  "get_module_output (Suc (Suc (Suc 0))) fallback_state 0 ''M'' =
       Some (Inr (12, Voc 1), fallback_state)
   \<and> get_module_output (Suc (Suc (Suc 0))) fallback_state 0 ''M_default'' =
       Some (Inr (12, Voc 1), warn DeprecationWarning fallback_state)
   \<and> warnings (warn DeprecationWarning fallback_state) = [DeprecationWarning]
   \<and> get_module_output (Suc (Suc 0)) fallback_state 0 ''M'' =
       get_module_output (Suc 0) fallback_state 2 ''default''
   \<and> get_module_output (Suc (Suc 0)) fallback_state 0 ''own'' =
       Some (Inr (30, NoVocab), fallback_state)
   \<and> get_module_output (Suc (Suc 0)) fallback_state 0 ''my_mod_x'' =
       Some (Inr (13, NoVocab), warn DeprecationWarning fallback_state)"
proof -
  have h1: "CHR ''.'' \<notin> set ''M''"
    by simp
  have h2: "dict_get (modules (mods fallback_state 0)) ''M'' = Some 2"
    by (simp add: fallback_state_def dict_get_def)
  have h3: "outputs (mods fallback_state 2) = [(''default'', (12, Voc 1))]"
    by (simp add: fallback_state_def blank_module_def)
  have h4: "\<not> dict_contains (outputs (mods fallback_state 0)) ''M''"
    by (simp add: fallback_state_def dict_contains_def dict_get_def)
  have h5: "\<not> dict_contains (outputs (mods fallback_state 0)) (''M'' @ ''_default'')"
    by (simp add: fallback_state_def dict_contains_def dict_get_def)
  have h6: "\<not> dict_contains (modules (mods fallback_state 0)) (''M'' @ ''_default'')"
    by (simp add: fallback_state_def dict_contains_def dict_get_def)
  have own: "CHR ''.'' \<notin> set ''own''
      \<and> dict_get (outputs (mods fallback_state 0)) ''own'' = Some (30, NoVocab)"
    by (simp add: fallback_state_def dict_get_def)
  have legacy: "CHR ''.'' \<notin> set (''my_mod'' @ ''_'' @ ''x'') \<and> CHR ''_'' \<notin> set ''x''
      \<and> \<not> dict_contains (outputs (mods fallback_state 0)) (''my_mod'' @ ''_'' @ ''x'')
      \<and> \<not> dict_contains (modules (mods fallback_state 0)) (''my_mod'' @ ''_'' @ ''x'')
      \<and> dict_get (modules (mods fallback_state 0)) ''my_mod'' = Some 3"
    by (simp add: fallback_state_def dict_contains_def dict_get_def)
  have inner: "get_module_output (Suc 0) fallback_state 3 ''x'' =
      Some (Inr (13, NoVocab), fallback_state)"
    by (simp add: fallback_state_def blank_module_def dict_contains_def dict_get_def split1_def)
  note inst = underscore_fallback_default_port[OF h1 h2 h3 h4 h5 h6,
      where depth = "Suc 0" and n = "''own''" and q = "(30, NoVocab)"
        and c = "''M''" and C = 2 and h = "''my_mod''" and t = "''x''" and D = 3]
  have w: "warnings fallback_state = []"
    by (simp add: fallback_state_def)
  from inst own legacy inner w h1 h2 h4 show ?thesis
    by (simp del: get_module_output.simps)
qed

text \<open>
  The claim as stated fails on a module that has an output port of its own named \<open>M\<close>
  beside the child \<open>M\<close>: the bare name resolves to the module's own port, the underscore
  form to the child's \<open>default\<close> port.
\<close>

theorem own_port_shadows_child_default:
  "get_module_output (Suc (Suc 0)) shadow_state 0 ''M'' = Some (Inr (20, NoVocab), shadow_state)
   \<and> get_module_output (Suc (Suc 0)) shadow_state 0 ''M_default'' =
       Some (Inr (12, Voc 1), warn DeprecationWarning shadow_state)"
  by (simp add: shadow_state_def blank_module_def dict_get_def dict_contains_def
      split1_def rsplit1_def Let_def warn_def)

subsection \<open>Resolution does not change the modules\<close>

lemma get_module_frame:
  "get_module depth s self name so = Some (r, s') \<Longrightarrow> s' = s"
proof (induction depth arbitrary: self name r)
  case 0
  then show ?case by simp
next
  case (Suc depth)
  from Suc.prems show ?case
    apply (simp only: get_module.simps)
    apply (drule map_except_cases)
    apply (auto simp: Let_def split: if_splits option.splits dest!: Suc.IH)
    done
qed

lemma get_module_input_frame:
  "get_module_input depth s self name = Some (r, s') \<Longrightarrow>
     mods s' = mods s \<and> vmaps s' = vmaps s \<and> next_vocab s' = next_vocab s"
proof (induction depth arbitrary: self name r s')
  case 0
  then show ?case by simp
next
  case (Suc depth)
  from Suc.prems show ?case
    apply (simp only: get_module_input.simps)
    apply (drule map_except_cases)
    apply (auto simp: Let_def warn_def split: if_splits option.splits sum.splits dest!: Suc.IH)
    done
qed

lemma get_module_output_frame:
  "get_module_output depth s self name = Some (r, s') \<Longrightarrow>
     mods s' = mods s \<and> vmaps s' = vmaps s \<and> next_vocab s' = next_vocab s"
proof (induction depth arbitrary: self name r s')
  case 0
  then show ?case by simp
next
  case (Suc depth)
  from Suc.prems show ?case
    apply (simp only: get_module_output.simps)
    apply (drule map_except_cases)
    apply (auto simp: Let_def warn_def split: if_splits option.splits sum.splits dest!: Suc.IH)
    done
qed

text \<open>
  Claim C9. Whatever \<open>get_module\<close>, \<open>get_module_input\<close>, \<open>get_module_output\<close>,
  \<open>get_input_vocab\<close> and \<open>get_output_vocab\<close> return, a result or an error, the store of
  the modules (every module's label, child registry, inputs and outputs), the vocabulary
  maps and the supply of vocabulary handles are the ones before the call: the only
  component of the state that a resolution changes is the list of warnings, and
  \<open>get_module\<close> changes nothing at all.
\<close>

theorem resolution_leaves_modules_unchanged:
  "(get_module depth s P name so = Some (r1, s1) \<longrightarrow> s1 = s)
   \<and> (get_module_input depth s P name = Some (r2, s2) \<longrightarrow>
        mods s2 = mods s \<and> vmaps s2 = vmaps s \<and> next_vocab s2 = next_vocab s)
   \<and> (get_module_output depth s P name = Some (r3, s3) \<longrightarrow>
        mods s3 = mods s \<and> vmaps s3 = vmaps s \<and> next_vocab s3 = next_vocab s)
   \<and> (get_input_vocab depth s P name = Some (r4, s4) \<longrightarrow>
        mods s4 = mods s \<and> vmaps s4 = vmaps s \<and> next_vocab s4 = next_vocab s)
   \<and> (get_output_vocab depth s P name = Some (r5, s5) \<longrightarrow>
        mods s5 = mods s \<and> vmaps s5 = vmaps s \<and> next_vocab s5 = next_vocab s)"
proof (intro conjI impI)
  assume "get_module depth s P name so = Some (r1, s1)"
  then show "s1 = s"
    by (rule get_module_frame)
next
  assume a: "get_module_input depth s P name = Some (r2, s2)"
  from get_module_input_frame[OF a]
  show "mods s2 = mods s" and "vmaps s2 = vmaps s" and "next_vocab s2 = next_vocab s"
    by simp_all
next
  assume a: "get_module_output depth s P name = Some (r3, s3)"
  from get_module_output_frame[OF a]
  show "mods s3 = mods s" and "vmaps s3 = vmaps s" and "next_vocab s3 = next_vocab s"
    by simp_all
next
  assume "get_input_vocab depth s P name = Some (r4, s4)"
  then obtain r where a: "get_module_input depth s P name = Some (r, s4)"
    by (auto simp: get_input_vocab_def split: option.splits sum.splits prod.splits)
  from get_module_input_frame[OF a]
  show "mods s4 = mods s" and "vmaps s4 = vmaps s" and "next_vocab s4 = next_vocab s"
    by simp_all
next
  assume "get_output_vocab depth s P name = Some (r5, s5)"
  then obtain r where a: "get_module_output depth s P name = Some (r, s5)"
    by (auto simp: get_output_vocab_def split: option.splits sum.splits prod.splits)
  from get_module_output_frame[OF a]
  show "mods s5 = mods s" and "vmaps s5 = vmaps s" and "next_vocab s5 = next_vocab s"
    by simp_all
qed

theorem resolution_leaves_modules_unchanged_witness:
  "get_module (Suc 0) fallback_state 0 ''M'' False = Some (Inr 2, fallback_state)
   \<and> get_module_input (Suc 0) fallback_state 0 ''nope'' =
       Some (Inl (SpaModuleError (CouldNotFindInput ''nope'')), fallback_state)
   \<and> get_module_output (Suc (Suc 0)) fallback_state 0 ''my_mod_x'' =
       Some (Inr (13, NoVocab), warn DeprecationWarning fallback_state)
   \<and> get_input_vocab (Suc 0) fallback_state 0 ''nope'' =
       Some (Inl (SpaModuleError (CouldNotFindInput ''nope'')), fallback_state)
   \<and> get_output_vocab (Suc (Suc 0)) fallback_state 0 ''my_mod_x'' =
       Some (Inr NoVocab, warn DeprecationWarning fallback_state)
   \<and> mods (warn DeprecationWarning fallback_state) = mods fallback_state
   \<and> vmaps (warn DeprecationWarning fallback_state) = vmaps fallback_state
   \<and> next_vocab (warn DeprecationWarning fallback_state) = next_vocab fallback_state"
proof -
  have m: "get_module (Suc 0) fallback_state 0 ''M'' False = Some (Inr 2, fallback_state)"
    by (simp add: fallback_state_def blank_module_def dict_get_def dict_contains_def
        split1_def Let_def)
  have i: "get_module_input (Suc 0) fallback_state 0 ''nope'' =
       Some (Inl (SpaModuleError (CouldNotFindInput ''nope'')), fallback_state)"
    by (simp add: fallback_state_def blank_module_def dict_get_def dict_contains_def
        split1_def rsplit1_def Let_def)
  have out: "get_module_output (Suc (Suc 0)) fallback_state 0 ''my_mod_x'' =
       Some (Inr (13, NoVocab), warn DeprecationWarning fallback_state)"
    by (simp add: fallback_state_def blank_module_def dict_get_def dict_contains_def
        split1_def rsplit1_def Let_def)
  have iv: "get_input_vocab (Suc 0) fallback_state 0 ''nope'' =
       Some (Inl (SpaModuleError (CouldNotFindInput ''nope'')), fallback_state)"
    unfolding get_input_vocab_def i by simp
  have ov: "get_output_vocab (Suc (Suc 0)) fallback_state 0 ''my_mod_x'' =
       Some (Inr NoVocab, warn DeprecationWarning fallback_state)"
    unfolding get_output_vocab_def out by simp
  note at_out = resolution_leaves_modules_unchanged
      [where depth = "Suc (Suc 0)" and s = fallback_state and P = 0 and name = "''my_mod_x''"
         and ?r3.0 = "Inr (13, NoVocab)" and ?s3.0 = "warn DeprecationWarning fallback_state"
         and ?r5.0 = "Inr NoVocab" and ?s5.0 = "warn DeprecationWarning fallback_state"]
  from at_out out ov m i iv show ?thesis
    by (simp del: get_module_output.simps get_module_input.simps get_module.simps)
qed

section \<open>Enumeration: properties\<close>

lemma yield_names_map:
  "yield_names name ks = map (\<lambda>inp. if inp = ''default'' then name else name @ ''_'' @ inp) ks"
  by (induction ks) simp_all

lemma module_inputs_loop_concat:
  "module_inputs_loop s cs =
     concat (map (\<lambda>(name, m). yield_names name (map fst (inputs (mods s m)))) cs)"
  by (induction cs) auto

text \<open>
  Claim C7. \<open>P.get_module_inputs()\<close> yields, for each child of \<open>P\<close> in the order of the
  registry and for each input port of the child in the order of the child's \<open>inputs\<close>,
  the child's name as it is when the port is \<open>default\<close>, and the child's name, an
  underscore and the port's name otherwise (the names are joined by an underscore,
  never by a dot). With the registry \<open>m1\<close> (input port \<open>default\<close>), \<open>m2\<close> (input ports
  \<open>a\<close>, \<open>b\<close>) in that order, the values are \<open>m1\<close>, \<open>m2_a\<close>, \<open>m2_b\<close> in that order.
\<close>

theorem get_module_inputs_enumeration:
  "get_module_inputs s P =
     concat (map (\<lambda>(name, m).
                map (\<lambda>inp. if inp = ''default'' then name else name @ ''_'' @ inp)
                  (map fst (inputs (mods s m))))
              (modules (mods s P)))
   \<and> (modules (mods s P) = [(''m1'', r1), (''m2'', r2)]
        \<and> map fst (inputs (mods s r1)) = [''default'']
        \<and> map fst (inputs (mods s r2)) = [''a'', ''b''] \<longrightarrow>
        get_module_inputs s P = [''m1'', ''m2_a'', ''m2_b''])"
proof (intro conjI impI)
  show "get_module_inputs s P =
     concat (map (\<lambda>(name, m).
                map (\<lambda>inp. if inp = ''default'' then name else name @ ''_'' @ inp)
                  (map fst (inputs (mods s m))))
              (modules (mods s P)))"
    by (simp add: get_module_inputs_def module_inputs_loop_concat yield_names_map)
next
  assume "modules (mods s P) = [(''m1'', r1), (''m2'', r2)]
        \<and> map fst (inputs (mods s r1)) = [''default'']
        \<and> map fst (inputs (mods s r2)) = [''a'', ''b'']"
  then show "get_module_inputs s P = [''m1'', ''m2_a'', ''m2_b'']"
    by (simp add: get_module_inputs_def)
qed

theorem get_module_inputs_enumeration_witness:
  "get_module_inputs listing_state 0 = [''m1'', ''m2_a'', ''m2_b'']"
proof -
  have "modules (mods listing_state 0) = [(''m1'', 1), (''m2'', 2)]
        \<and> map fst (inputs (mods listing_state 1)) = [''default'']
        \<and> map fst (inputs (mods listing_state 2)) = [''a'', ''b'']"
    by (simp add: listing_state_def blank_module_def)
  with get_module_inputs_enumeration[of listing_state 0 1 2] show ?thesis
    by blast
qed

section \<open>Closing the scope: properties\<close>

lemma check_networks_raises:
  "ModuleNet q \<in> set nets \<Longrightarrow> q \<notin> ml \<Longrightarrow>
     \<exists>r. check_networks ml nets = Raise (SpaModuleError (MustBeSet r))
        \<and> ModuleNet r \<in> set nets \<and> r \<notin> ml"
proof (induction nets)
  case Nil
  then show ?case by simp
next
  case (Cons net nets)
  show ?case
  proof (cases net)
    case (ModuleNet r)
    with Cons show ?thesis
      by (cases "r \<in> ml") auto
  next
    case (PlainNet n)
    with Cons show ?thesis by auto
  qed
qed

text \<open>
  Claim C3. Let the base class's exit complete. When no exception is in flight and some
  Module among \<open>P.networks\<close> is not, by identity, one of the registered children of \<open>P\<close>,
  \<open>__exit__\<close> raises the SpaModuleError that names such a module, and that error leaves
  the scope. When an exception is in flight, \<open>__exit__\<close> returns False whatever the
  networks are (the check is not run), and the exception in flight leaves the scope
  unchanged.
\<close>

theorem exit_checks_unregistered_modules:
  assumes "net_exit E s P = None"
  shows "(ex_type = None \<and> ModuleNet q \<in> set (networks (mods s P))
            \<and> q \<notin> set (map snd (modules (mods s P))) \<longrightarrow>
            (\<exists>r. module_exit E s P ex_type = Raise (SpaModuleError (MustBeSet r))
                \<and> close_scope E s P ex_type = Some (SpaModuleError (MustBeSet r))
                \<and> ModuleNet r \<in> set (networks (mods s P))
                \<and> r \<notin> set (map snd (modules (mods s P)))))
       \<and> (ex_type = Some x \<longrightarrow>
            module_exit E s P ex_type = ReturnFalse \<and> close_scope E s P ex_type = Some x)"
proof (intro conjI impI)
  assume a: "ex_type = None \<and> ModuleNet q \<in> set (networks (mods s P))
            \<and> q \<notin> set (map snd (modules (mods s P)))"
  then obtain r where
    r: "check_networks (set (map snd (modules (mods s P)))) (networks (mods s P)) =
          Raise (SpaModuleError (MustBeSet r))"
      "ModuleNet r \<in> set (networks (mods s P))" "r \<notin> set (map snd (modules (mods s P)))"
    using check_networks_raises[of q "networks (mods s P)" "set (map snd (modules (mods s P)))"]
    by blast
  from a r(1) assms have "module_exit E s P ex_type = Raise (SpaModuleError (MustBeSet r))"
    by (simp add: module_exit_def)
  with r(2,3)
  show "\<exists>r. module_exit E s P ex_type = Raise (SpaModuleError (MustBeSet r))
                \<and> close_scope E s P ex_type = Some (SpaModuleError (MustBeSet r))
                \<and> ModuleNet r \<in> set (networks (mods s P))
                \<and> r \<notin> set (map snd (modules (mods s P)))"
    by (auto simp: close_scope_def)
next
  assume "ex_type = Some x"
  with assms show "module_exit E s P ex_type = ReturnFalse"
    by (simp add: module_exit_def)
next
  assume "ex_type = Some x"
  with assms show "close_scope E s P ex_type = Some x"
    by (simp add: module_exit_def close_scope_def)
qed

theorem exit_checks_unregistered_modules_witness:
  "module_exit demo_env scope_state 0 None = Raise (SpaModuleError (MustBeSet 2))
   \<and> close_scope demo_env scope_state 0 None = Some (SpaModuleError (MustBeSet 2))
   \<and> module_exit demo_env scope_state 0 (Some (OtherError 7)) = ReturnFalse
   \<and> close_scope demo_env scope_state 0 (Some (OtherError 7)) = Some (OtherError 7)"
proof -
  have base: "net_exit demo_env scope_state 0 = None"
    by (simp add: demo_env_def)
  have nets: "networks (mods scope_state 0) = [PlainNet 5, ModuleNet 1, ModuleNet 2]"
    and reg: "modules (mods scope_state 0) = [(''a'', 1)]"
    by (simp_all add: scope_state_def blank_module_def)
  have open_module: "(None :: error option) = None
      \<and> ModuleNet 2 \<in> set (networks (mods scope_state 0))
      \<and> 2 \<notin> set (map snd (modules (mods scope_state 0)))"
    by (simp add: nets reg)
  from exit_checks_unregistered_modules[OF base, where ex_type = None and q = 2] open_module
  obtain r where r: "module_exit demo_env scope_state 0 None = Raise (SpaModuleError (MustBeSet r))"
      "close_scope demo_env scope_state 0 None = Some (SpaModuleError (MustBeSet r))"
      "ModuleNet r \<in> set (networks (mods scope_state 0))"
      "r \<notin> set (map snd (modules (mods scope_state 0)))"
    by blast
  from r(3,4) have "r = 2"
    by (auto simp: nets reg)
  with r(1,2) exit_checks_unregistered_modules
      [OF base, where ex_type = "Some (OtherError 7)" and x = "OtherError 7"]
  show ?thesis by simp
qed

section \<open>Registration: properties\<close>

subsection \<open>What the steps of a registration leave alone\<close>

lemma dict_get_dict_set:
  "dict_get (dict_set d k v) k' = (if k' = k then Some v else dict_get d k')"
  by (induction d) (auto simp: dict_get_def)





subsection \<open>A name is bound to a module once\<close>



















subsection \<open>The ports of a registered module\<close>

lemma dict_set_middle:
  "k \<notin> fst ` set pre \<Longrightarrow> dict_set (pre @ (k, x) # rest) k y = pre @ (k, y) # rest"
  by (induction pre) auto

lemma get_or_create_ok:
  assumes "1 \<le> d"
  shows "\<exists>h s'. get_or_create vm d s = (Inr h, s')
      \<and> mods s' = mods s \<and> warnings s' = warnings s
      \<and> map_of (vmaps s' vm) d = Some h
      \<and> (\<forall>vm'. vm' \<noteq> vm \<longrightarrow> vmaps s' vm' = vmaps s vm')
      \<and> (\<forall>d' h'. map_of (vmaps s vm) d' = Some h' \<longrightarrow> map_of (vmaps s' vm) d' = Some h')"
proof (cases "map_of (vmaps s vm) d")
  case None
  with assms show ?thesis
    by (simp add: get_or_create_def map_add_def)
next
  case (Some h)
  with assms show ?thesis
    by (simp add: get_or_create_def)
qed

lemma resolve_port_raw:
  "map_of tab d = Some h \<Longrightarrow> resolve_port tab (k, obj, Dim d) = (k, obj, Voc h)"
  by (simp add: resolve_port_def resolve_binding_def)

lemma resolve_port_other:
  "\<forall>d. b \<noteq> Dim d \<Longrightarrow> resolve_port tab (k, obj, b) = (k, obj, b)"
  by (cases b) (auto simp: resolve_port_def resolve_binding_def)

lemma resolve_inputs_result:
  assumes "inputs (mods s module) = pre @ items"
    and "distinct (map fst (pre @ items))"
    and "\<forall>(k, obj, b) \<in> set items. \<forall>d. b = Dim d \<longrightarrow> 1 \<le> d"
    and "s' = snd (resolve_inputs self module items s)"
  shows "resolve_inputs self module items s = (Inr (), s')
      \<and> mods s' = (mods s)(module := (mods s module)
            \<lparr>inputs := pre @ map (resolve_port (vmaps s' (vocabs (mods s self)))) items\<rparr>)
      \<and> (\<forall>(k, obj, b) \<in> set items. \<forall>d. b = Dim d \<longrightarrow>
            map_of (vmaps s' (vocabs (mods s self))) d \<noteq> None)
      \<and> (\<forall>vm'. vm' \<noteq> vocabs (mods s self) \<longrightarrow> vmaps s' vm' = vmaps s vm')
      \<and> (\<forall>d h. map_of (vmaps s (vocabs (mods s self))) d = Some h \<longrightarrow>
            map_of (vmaps s' (vocabs (mods s self))) d = Some h)
      \<and> warnings s' = warnings s"
  using assms
proof (induction items arbitrary: s pre)
  case Nil
  have "mods s = (mods s)(module := (mods s module)\<lparr>inputs := pre\<rparr>)"
    using Nil.prems(1) by (auto simp: fun_eq_iff)
  with Nil.prems(4) show ?case
    by simp
next
  case (Cons item items)
  obtain k obj b where item: "item = (k, obj, b)"
    by (cases item)
  define vm where "vm = vocabs (mods s self)"
  from Cons.prems(2) item have fresh: "k \<notin> fst ` set pre"
    by auto
  have valid2: "\<forall>(k, obj, b) \<in> set items. \<forall>d. b = Dim d \<longrightarrow> 1 \<le> d"
    using Cons.prems(3) by simp
  show ?case
  proof (cases "\<exists>d. b = Dim d")
    case True
    then obtain d where b: "b = Dim d"
      by (rule exE)
    with Cons.prems(3) item have "1 \<le> d"
      by simp
    from get_or_create_ok[OF this, of vm s] obtain h s1 where
      g: "get_or_create vm d s = (Inr h, s1)" "mods s1 = mods s" "warnings s1 = warnings s"
         "map_of (vmaps s1 vm) d = Some h"
         "\<forall>vm'. vm' \<noteq> vm \<longrightarrow> vmaps s1 vm' = vmaps s vm'"
         "\<forall>d' h'. map_of (vmaps s vm) d' = Some h' \<longrightarrow> map_of (vmaps s1 vm) d' = Some h'"
      by (elim exE conjE)
    define s2 where
      "s2 = update_module module (\<lambda>m. m\<lparr>inputs := dict_set (inputs m) k (obj, Voc h)\<rparr>) s1"
    have step: "resolve_inputs self module (item # items) s = resolve_inputs self module items s2"
      using item b g(1) by (simp add: vm_def s2_def)
    have in2: "inputs (mods s2 module) = (pre @ [(k, obj, Voc h)]) @ items"
      using Cons.prems(1) item g(2) fresh by (simp add: s2_def update_module_def dict_set_middle)
    have dist2: "distinct (map fst ((pre @ [(k, obj, Voc h)]) @ items))"
      using Cons.prems(2) item by simp
    have vm2: "vocabs (mods s2 self) = vm"
      using g(2) by (simp add: s2_def update_module_def vm_def)
    have vmaps2: "vmaps s2 = vmaps s1" and warn2: "warnings s2 = warnings s1"
      by (simp_all add: s2_def update_module_def)
    have mods2: "mods s2 = (mods s)(module := (mods s module)
        \<lparr>inputs := (pre @ [(k, obj, Voc h)]) @ items\<rparr>)"
      using in2 g(2) by (auto simp: s2_def update_module_def fun_eq_iff)
    have eq2: "s' = snd (resolve_inputs self module items s2)"
      using Cons.prems(4) step by simp
    note ih = Cons.IH[OF in2 dist2 valid2 eq2, unfolded vm2]
    have ih1: "resolve_inputs self module items s2 = (Inr (), s')"
      using ih by (rule conjunct1)
    have ih2: "mods s' = (mods s2)(module := (mods s2 module)
              \<lparr>inputs := (pre @ [(k, obj, Voc h)]) @ map (resolve_port (vmaps s' vm)) items\<rparr>)"
      using ih by (elim conjE)
    have ih3: "\<forall>(k, obj, b) \<in> set items. \<forall>d. b = Dim d \<longrightarrow>
        map_of (vmaps s' vm) d \<noteq> None"
      using ih by (elim conjE)
    have ih4: "\<forall>vm'. vm' \<noteq> vm \<longrightarrow> vmaps s' vm' = vmaps s2 vm'"
      using ih by (elim conjE)
    have ih5: "\<forall>d h. map_of (vmaps s2 vm) d = Some h \<longrightarrow> map_of (vmaps s' vm) d = Some h"
      using ih by (elim conjE)
    have ih6: "warnings s' = warnings s2"
      using ih by (elim conjE)
    have final: "map_of (vmaps s' vm) d = Some h"
      using ih5 g(4) vmaps2 by simp
    have port: "resolve_port (vmaps s' vm) item = (k, obj, Voc h)"
      using final item b by (simp add: resolve_port_raw)
    have c1: "resolve_inputs self module (item # items) s = (Inr (), s')"
      using step ih1 by simp
    have c2: "mods s' = (mods s)(module := (mods s module)
            \<lparr>inputs := pre @ map (resolve_port (vmaps s' vm)) (item # items)\<rparr>)"
      unfolding ih2 mods2 using port by (simp add: fun_eq_iff)
    have c3: "\<forall>(k, obj, b) \<in> set (item # items). \<forall>d. b = Dim d \<longrightarrow>
        map_of (vmaps s' vm) d \<noteq> None"
      using ih3 final item b by simp
    have c4: "\<forall>vm'. vm' \<noteq> vm \<longrightarrow> vmaps s' vm' = vmaps s vm'"
      using ih4 g(5) vmaps2 by simp
    have c5: "\<forall>d h. map_of (vmaps s vm) d = Some h \<longrightarrow> map_of (vmaps s' vm) d = Some h"
      using ih5 g(6) vmaps2 by simp
    have c6: "warnings s' = warnings s"
      using ih6 warn2 g(3) by simp
    from c1 c2 c3 c4 c5 c6 show ?thesis
      unfolding vm_def by (intro conjI)
  next
    case False
    then have nodim: "\<forall>d. b \<noteq> Dim d"
      by simp
    have step: "resolve_inputs self module (item # items) s = resolve_inputs self module items s"
      using item nodim by (cases b) simp_all
    have in2: "inputs (mods s module) = (pre @ [(k, obj, b)]) @ items"
      using Cons.prems(1) item by simp
    have dist2: "distinct (map fst ((pre @ [(k, obj, b)]) @ items))"
      using Cons.prems(2) item by simp
    have eq2: "s' = snd (resolve_inputs self module items s)"
      using Cons.prems(4) step by simp
    note ih = Cons.IH[OF in2 dist2 valid2 eq2, folded vm_def]
    have ih1: "resolve_inputs self module items s = (Inr (), s')"
      using ih by (rule conjunct1)
    have ih2: "mods s' = (mods s)(module := (mods s module)
              \<lparr>inputs := (pre @ [(k, obj, b)]) @ map (resolve_port (vmaps s' vm)) items\<rparr>)"
      using ih by (elim conjE)
    have ih3: "\<forall>(k, obj, b) \<in> set items. \<forall>d. b = Dim d \<longrightarrow>
        map_of (vmaps s' vm) d \<noteq> None"
      using ih by (elim conjE)
    have ih4: "\<forall>vm'. vm' \<noteq> vm \<longrightarrow> vmaps s' vm' = vmaps s vm'"
      using ih by (elim conjE)
    have ih5: "\<forall>d h. map_of (vmaps s vm) d = Some h \<longrightarrow> map_of (vmaps s' vm) d = Some h"
      using ih by (elim conjE)
    have ih6: "warnings s' = warnings s"
      using ih by (elim conjE)
    have port: "resolve_port (vmaps s' vm) item = (k, obj, b)"
      using item nodim by (simp add: resolve_port_other)
    have c1: "resolve_inputs self module (item # items) s = (Inr (), s')"
      using step ih1 by simp
    have c2: "mods s' = (mods s)(module := (mods s module)
            \<lparr>inputs := pre @ map (resolve_port (vmaps s' vm)) (item # items)\<rparr>)"
      unfolding ih2 using port by simp
    have c3: "\<forall>(k, obj, b) \<in> set (item # items). \<forall>d. b = Dim d \<longrightarrow>
        map_of (vmaps s' vm) d \<noteq> None"
      using ih3 item nodim by simp
    from c1 c2 c3 ih4 ih5 ih6 show ?thesis
      unfolding vm_def by (intro conjI)
  qed
qed

lemma resolve_outputs_result:
  assumes "outputs (mods s module) = pre @ items"
    and "distinct (map fst (pre @ items))"
    and "\<forall>(k, obj, b) \<in> set items. \<forall>d. b = Dim d \<longrightarrow> 1 \<le> d"
    and "s' = snd (resolve_outputs self module items s)"
  shows "resolve_outputs self module items s = (Inr (), s')
      \<and> mods s' = (mods s)(module := (mods s module)
            \<lparr>outputs := pre @ map (resolve_port (vmaps s' (vocabs (mods s self)))) items\<rparr>)
      \<and> (\<forall>(k, obj, b) \<in> set items. \<forall>d. b = Dim d \<longrightarrow>
            map_of (vmaps s' (vocabs (mods s self))) d \<noteq> None)
      \<and> (\<forall>vm'. vm' \<noteq> vocabs (mods s self) \<longrightarrow> vmaps s' vm' = vmaps s vm')
      \<and> (\<forall>d h. map_of (vmaps s (vocabs (mods s self))) d = Some h \<longrightarrow>
            map_of (vmaps s' (vocabs (mods s self))) d = Some h)
      \<and> warnings s' = warnings s"
  using assms
proof (induction items arbitrary: s pre)
  case Nil
  have "mods s = (mods s)(module := (mods s module)\<lparr>outputs := pre\<rparr>)"
    using Nil.prems(1) by (auto simp: fun_eq_iff)
  with Nil.prems(4) show ?case
    by simp
next
  case (Cons item items)
  obtain k obj b where item: "item = (k, obj, b)"
    by (cases item)
  define vm where "vm = vocabs (mods s self)"
  from Cons.prems(2) item have fresh: "k \<notin> fst ` set pre"
    by auto
  have valid2: "\<forall>(k, obj, b) \<in> set items. \<forall>d. b = Dim d \<longrightarrow> 1 \<le> d"
    using Cons.prems(3) by simp
  show ?case
  proof (cases "\<exists>d. b = Dim d")
    case True
    then obtain d where b: "b = Dim d"
      by (rule exE)
    with Cons.prems(3) item have "1 \<le> d"
      by simp
    from get_or_create_ok[OF this, of vm s] obtain h s1 where
      g: "get_or_create vm d s = (Inr h, s1)" "mods s1 = mods s" "warnings s1 = warnings s"
         "map_of (vmaps s1 vm) d = Some h"
         "\<forall>vm'. vm' \<noteq> vm \<longrightarrow> vmaps s1 vm' = vmaps s vm'"
         "\<forall>d' h'. map_of (vmaps s vm) d' = Some h' \<longrightarrow> map_of (vmaps s1 vm) d' = Some h'"
      by (elim exE conjE)
    define s2 where
      "s2 = update_module module (\<lambda>m. m\<lparr>outputs := dict_set (outputs m) k (obj, Voc h)\<rparr>) s1"
    have step: "resolve_outputs self module (item # items) s = resolve_outputs self module items s2"
      using item b g(1) by (simp add: vm_def s2_def)
    have in2: "outputs (mods s2 module) = (pre @ [(k, obj, Voc h)]) @ items"
      using Cons.prems(1) item g(2) fresh by (simp add: s2_def update_module_def dict_set_middle)
    have dist2: "distinct (map fst ((pre @ [(k, obj, Voc h)]) @ items))"
      using Cons.prems(2) item by simp
    have vm2: "vocabs (mods s2 self) = vm"
      using g(2) by (simp add: s2_def update_module_def vm_def)
    have vmaps2: "vmaps s2 = vmaps s1" and warn2: "warnings s2 = warnings s1"
      by (simp_all add: s2_def update_module_def)
    have mods2: "mods s2 = (mods s)(module := (mods s module)
        \<lparr>outputs := (pre @ [(k, obj, Voc h)]) @ items\<rparr>)"
      using in2 g(2) by (auto simp: s2_def update_module_def fun_eq_iff)
    have eq2: "s' = snd (resolve_outputs self module items s2)"
      using Cons.prems(4) step by simp
    note ih = Cons.IH[OF in2 dist2 valid2 eq2, unfolded vm2]
    have ih1: "resolve_outputs self module items s2 = (Inr (), s')"
      using ih by (rule conjunct1)
    have ih2: "mods s' = (mods s2)(module := (mods s2 module)
              \<lparr>outputs := (pre @ [(k, obj, Voc h)]) @ map (resolve_port (vmaps s' vm)) items\<rparr>)"
      using ih by (elim conjE)
    have ih3: "\<forall>(k, obj, b) \<in> set items. \<forall>d. b = Dim d \<longrightarrow>
        map_of (vmaps s' vm) d \<noteq> None"
      using ih by (elim conjE)
    have ih4: "\<forall>vm'. vm' \<noteq> vm \<longrightarrow> vmaps s' vm' = vmaps s2 vm'"
      using ih by (elim conjE)
    have ih5: "\<forall>d h. map_of (vmaps s2 vm) d = Some h \<longrightarrow> map_of (vmaps s' vm) d = Some h"
      using ih by (elim conjE)
    have ih6: "warnings s' = warnings s2"
      using ih by (elim conjE)
    have final: "map_of (vmaps s' vm) d = Some h"
      using ih5 g(4) vmaps2 by simp
    have port: "resolve_port (vmaps s' vm) item = (k, obj, Voc h)"
      using final item b by (simp add: resolve_port_raw)
    have c1: "resolve_outputs self module (item # items) s = (Inr (), s')"
      using step ih1 by simp
    have c2: "mods s' = (mods s)(module := (mods s module)
            \<lparr>outputs := pre @ map (resolve_port (vmaps s' vm)) (item # items)\<rparr>)"
      unfolding ih2 mods2 using port by (simp add: fun_eq_iff)
    have c3: "\<forall>(k, obj, b) \<in> set (item # items). \<forall>d. b = Dim d \<longrightarrow>
        map_of (vmaps s' vm) d \<noteq> None"
      using ih3 final item b by simp
    have c4: "\<forall>vm'. vm' \<noteq> vm \<longrightarrow> vmaps s' vm' = vmaps s vm'"
      using ih4 g(5) vmaps2 by simp
    have c5: "\<forall>d h. map_of (vmaps s vm) d = Some h \<longrightarrow> map_of (vmaps s' vm) d = Some h"
      using ih5 g(6) vmaps2 by simp
    have c6: "warnings s' = warnings s"
      using ih6 warn2 g(3) by simp
    from c1 c2 c3 c4 c5 c6 show ?thesis
      unfolding vm_def by (intro conjI)
  next
    case False
    then have nodim: "\<forall>d. b \<noteq> Dim d"
      by simp
    have step: "resolve_outputs self module (item # items) s = resolve_outputs self module items s"
      using item nodim by (cases b) simp_all
    have in2: "outputs (mods s module) = (pre @ [(k, obj, b)]) @ items"
      using Cons.prems(1) item by simp
    have dist2: "distinct (map fst ((pre @ [(k, obj, b)]) @ items))"
      using Cons.prems(2) item by simp
    have eq2: "s' = snd (resolve_outputs self module items s)"
      using Cons.prems(4) step by simp
    note ih = Cons.IH[OF in2 dist2 valid2 eq2, folded vm_def]
    have ih1: "resolve_outputs self module items s = (Inr (), s')"
      using ih by (rule conjunct1)
    have ih2: "mods s' = (mods s)(module := (mods s module)
              \<lparr>outputs := (pre @ [(k, obj, b)]) @ map (resolve_port (vmaps s' vm)) items\<rparr>)"
      using ih by (elim conjE)
    have ih3: "\<forall>(k, obj, b) \<in> set items. \<forall>d. b = Dim d \<longrightarrow>
        map_of (vmaps s' vm) d \<noteq> None"
      using ih by (elim conjE)
    have ih4: "\<forall>vm'. vm' \<noteq> vm \<longrightarrow> vmaps s' vm' = vmaps s vm'"
      using ih by (elim conjE)
    have ih5: "\<forall>d h. map_of (vmaps s vm) d = Some h \<longrightarrow> map_of (vmaps s' vm) d = Some h"
      using ih by (elim conjE)
    have ih6: "warnings s' = warnings s"
      using ih by (elim conjE)
    have port: "resolve_port (vmaps s' vm) item = (k, obj, b)"
      using item nodim by (simp add: resolve_port_other)
    have c1: "resolve_outputs self module (item # items) s = (Inr (), s')"
      using step ih1 by simp
    have c2: "mods s' = (mods s)(module := (mods s module)
            \<lparr>outputs := pre @ map (resolve_port (vmaps s' vm)) (item # items)\<rparr>)"
      unfolding ih2 using port by simp
    have c3: "\<forall>(k, obj, b) \<in> set (item # items). \<forall>d. b = Dim d \<longrightarrow>
        map_of (vmaps s' vm) d \<noteq> None"
      using ih3 item nodim by simp
    from c1 c2 c3 ih4 ih5 ih6 show ?thesis
      unfolding vm_def by (intro conjI)
  qed
qed

lemma resolve_port_mono:
  assumes "\<forall>(k, obj, b) \<in> set items. \<forall>d. b = Dim d \<longrightarrow> map_of tab d \<noteq> None"
    and "\<forall>d h. map_of tab d = Some h \<longrightarrow> map_of tab' d = Some h"
  shows "map (resolve_port tab) items = map (resolve_port tab') items"
  using assms
proof (induction items)
  case Nil
  then show ?case by simp
next
  case (Cons item items)
  obtain k obj b where item: "item = (k, obj, b)"
    by (cases item)
  have "resolve_port tab item = resolve_port tab' item"
  proof (cases b)
    case (Dim d)
    with Cons.prems(1) item obtain h where h: "map_of tab d = Some h"
      by auto
    with Cons.prems(2) have "map_of tab' d = Some h"
      by simp
    with h item Dim show ?thesis
      by (simp add: resolve_port_raw)
  next
    case (Voc h)
    with item show ?thesis
      by (simp add: resolve_port_def resolve_binding_def)
  next
    case NoVocab
    with item show ?thesis
      by (simp add: resolve_port_def resolve_binding_def)
  qed
  with Cons show ?case
    by simp
qed

text \<open>
  Claim C2. Let the keys of \<open>v.inputs\<close> and of \<open>v.outputs\<close> be distinct (they are the keys
  of a dictionary) and every dimension they give be positive (what \<open>get_or_create\<close>
  accepts). Then \<open>__set_module\<close> on parent \<open>P\<close> calls \<open>v.on_add(P)\<close> on a state \<open>s'\<close> in
  which \<open>v\<close> is in the registry of \<open>P\<close> under the key and every port of \<open>v\<close> is resolved:
  the ports are those before the call, in their order, where a binding that is a
  dimension \<open>d\<close> has become the vocabulary that \<open>get_or_create(d)\<close> on the vocabulary map
  of \<open>P\<close> returns, and any other binding is unchanged. Vocabularies that the map of \<open>P\<close>
  already had are reused, and no other vocabulary map, the child's own included, has
  changed.
\<close>

theorem set_module_resolves_ports_then_on_add:
  assumes "distinct (map fst (inputs (mods s v)))"
    and "distinct (map fst (outputs (mods s v)))"
    and "\<forall>(k, obj, b) \<in> set (inputs (mods s v) @ outputs (mods s v)).
           \<forall>d. b = Dim d \<longrightarrow> 1 \<le> d"
  shows "\<exists>s'. set_module hook s P key v = hook v P s'
      \<and> dict_get (modules (mods s' P)) key = Some v
      \<and> inputs (mods s' v) =
          map (resolve_port (vmaps s' (vocabs (mods s P)))) (inputs (mods s v))
      \<and> outputs (mods s' v) =
          map (resolve_port (vmaps s' (vocabs (mods s P)))) (outputs (mods s v))
      \<and> (\<forall>(k, obj, b) \<in> set (inputs (mods s v) @ outputs (mods s v)).
            \<forall>d. b = Dim d \<longrightarrow>
              (\<exists>h. get_or_create (vocabs (mods s P)) d s' = (Inr h, s')
                 \<and> resolve_binding (vmaps s' (vocabs (mods s P))) b = Voc h))
      \<and> (\<forall>(k, obj, b) \<in> set (inputs (mods s v) @ outputs (mods s v)).
            (\<forall>d. b \<noteq> Dim d) \<longrightarrow> resolve_binding (vmaps s' (vocabs (mods s P))) b = b)
      \<and> (\<forall>d h. map_of (vmaps s (vocabs (mods s P))) d = Some h \<longrightarrow>
            map_of (vmaps s' (vocabs (mods s P))) d = Some h)
      \<and> (\<forall>vm'. vm' \<noteq> vocabs (mods s P) \<longrightarrow> vmaps s' vm' = vmaps s vm')
      \<and> vocabs (mods s' P) = vocabs (mods s P)"
proof -
  define vm where "vm = vocabs (mods s P)"
  define s1 where "s1 = (if label (mods s v) = None
                then update_module v (\<lambda>m. m\<lparr>label := Some key\<rparr>) s else s)"
  define s2 where
    "s2 = update_module P (\<lambda>m. m\<lparr>modules := dict_set (modules m) key v\<rparr>) s1"
  define s3 where "s3 = snd (resolve_inputs P v (inputs (mods s2 v)) s2)"
  define s4 where "s4 = snd (resolve_outputs P v (outputs (mods s3 v)) s3)"
  have in1: "inputs (mods s1 x) = inputs (mods s x)"
    and out1: "outputs (mods s1 x) = outputs (mods s x)"
    and voc1: "vocabs (mods s1 x) = vocabs (mods s x)" for x
    by (simp_all add: s1_def update_module_def)
  have in2: "inputs (mods s2 x) = inputs (mods s x)"
    and out2: "outputs (mods s2 x) = outputs (mods s x)"
    and voc2: "vocabs (mods s2 x) = vocabs (mods s x)" for x
    using in1 out1 voc1 by (simp_all add: s2_def update_module_def)
  have vmaps2: "vmaps s2 = vmaps s"
    by (simp add: s2_def s1_def update_module_def)
  have reg2: "dict_get (modules (mods s2 P)) key = Some v"
    by (simp add: s2_def update_module_def dict_get_dict_set)
  have valid_in: "\<forall>(k, obj, b) \<in> set (inputs (mods s v)). \<forall>d. b = Dim d \<longrightarrow> 1 \<le> d"
    and valid_out: "\<forall>(k, obj, b) \<in> set (outputs (mods s v)). \<forall>d. b = Dim d \<longrightarrow> 1 \<le> d"
    using assms(3) by auto
  have pre_in: "inputs (mods s2 v) = [] @ inputs (mods s v)"
    by (simp add: in2)
  have dist_in: "distinct (map fst ([] @ inputs (mods s v)))"
    using assms(1) by simp
  have eq3: "s3 = snd (resolve_inputs P v (inputs (mods s v)) s2)"
    by (simp add: s3_def in2)
  note r3 = resolve_inputs_result[OF pre_in dist_in valid_in eq3, unfolded voc2, folded vm_def]
  have i1: "resolve_inputs P v (inputs (mods s v)) s2 = (Inr (), s3)"
    using r3 by (rule conjunct1)
  have i2: "mods s3 = (mods s2)(v := (mods s2 v)
      \<lparr>inputs := [] @ map (resolve_port (vmaps s3 vm)) (inputs (mods s v))\<rparr>)"
    using r3 by (elim conjE)
  have i3: "\<forall>(k, obj, b) \<in> set (inputs (mods s v)). \<forall>d. b = Dim d \<longrightarrow>
      map_of (vmaps s3 vm) d \<noteq> None"
    using r3 by (elim conjE)
  have i4: "\<forall>vm'. vm' \<noteq> vm \<longrightarrow> vmaps s3 vm' = vmaps s2 vm'"
    using r3 by (elim conjE)
  have i5: "\<forall>d h. map_of (vmaps s2 vm) d = Some h \<longrightarrow> map_of (vmaps s3 vm) d = Some h"
    using r3 by (elim conjE)
  have out3: "outputs (mods s3 v) = outputs (mods s v)"
    unfolding i2 using out2 by simp
  have voc3: "vocabs (mods s3 P) = vm"
    unfolding i2 using voc2 by (simp add: vm_def)
  have reg3: "modules (mods s3 P) = modules (mods s2 P)"
    unfolding i2 by simp
  have in3: "inputs (mods s3 v) = map (resolve_port (vmaps s3 vm)) (inputs (mods s v))"
    unfolding i2 by simp
  have pre_out: "outputs (mods s3 v) = [] @ outputs (mods s v)"
    by (simp add: out3)
  have dist_out: "distinct (map fst ([] @ outputs (mods s v)))"
    using assms(2) by simp
  have eq4: "s4 = snd (resolve_outputs P v (outputs (mods s v)) s3)"
    by (simp add: s4_def out3)
  note r4 = resolve_outputs_result[OF pre_out dist_out valid_out eq4, unfolded voc3]
  have o1: "resolve_outputs P v (outputs (mods s v)) s3 = (Inr (), s4)"
    using r4 by (rule conjunct1)
  have o2: "mods s4 = (mods s3)(v := (mods s3 v)
      \<lparr>outputs := [] @ map (resolve_port (vmaps s4 vm)) (outputs (mods s v))\<rparr>)"
    using r4 by (elim conjE)
  have o3: "\<forall>(k, obj, b) \<in> set (outputs (mods s v)). \<forall>d. b = Dim d \<longrightarrow>
      map_of (vmaps s4 vm) d \<noteq> None"
    using r4 by (elim conjE)
  have o4: "\<forall>vm'. vm' \<noteq> vm \<longrightarrow> vmaps s4 vm' = vmaps s3 vm'"
    using r4 by (elim conjE)
  have o5: "\<forall>d h. map_of (vmaps s3 vm) d = Some h \<longrightarrow> map_of (vmaps s4 vm) d = Some h"
    using r4 by (elim conjE)
  have call: "set_module hook s P key v = hook v P s4"
    by (simp add: set_module_def Let_def s1_def[symmetric] s2_def[symmetric] in2 i1 out3 o1)
  have reg4: "modules (mods s4 P) = modules (mods s3 P)"
    unfolding o2 by simp
  have c_reg: "dict_get (modules (mods s4 P)) key = Some v"
    using reg2 reg3 reg4 by simp
  have "inputs (mods s4 v) = inputs (mods s3 v)"
    unfolding o2 by simp
  also have "\<dots> = map (resolve_port (vmaps s3 vm)) (inputs (mods s v))"
    by (rule in3)
  also have "\<dots> = map (resolve_port (vmaps s4 vm)) (inputs (mods s v))"
    using i3 o5 by (rule resolve_port_mono)
  finally have c_in: "inputs (mods s4 v) = map (resolve_port (vmaps s4 vm)) (inputs (mods s v))" .
  have c_out: "outputs (mods s4 v) = map (resolve_port (vmaps s4 vm)) (outputs (mods s v))"
    unfolding o2 by simp
  have present: "\<forall>(k, obj, b) \<in> set (inputs (mods s v) @ outputs (mods s v)).
      \<forall>d. b = Dim d \<longrightarrow> map_of (vmaps s4 vm) d \<noteq> None"
    using i3 o3 o5 by fastforce
  have c_goc: "\<forall>(k, obj, b) \<in> set (inputs (mods s v) @ outputs (mods s v)).
            \<forall>d. b = Dim d \<longrightarrow>
              (\<exists>h. get_or_create vm d s4 = (Inr h, s4)
                 \<and> resolve_binding (vmaps s4 vm) b = Voc h)"
  proof (intro ballI, clarify)
    fix k obj d
    assume mem: "(k, obj, Dim d) \<in> set (inputs (mods s v) @ outputs (mods s v))"
    with assms(3) have pos: "1 \<le> d"
      by fastforce
    from mem present obtain h where h: "map_of (vmaps s4 vm) d = Some h"
      by fastforce
    from pos h have "get_or_create vm d s4 = (Inr h, s4)"
      by (simp add: get_or_create_def)
    moreover from h have "resolve_binding (vmaps s4 vm) (Dim d) = Voc h"
      by (simp add: resolve_binding_def)
    ultimately show "\<exists>h. get_or_create vm d s4 = (Inr h, s4)
        \<and> resolve_binding (vmaps s4 vm) (Dim d) = Voc h"
      by blast
  qed
  have c_other: "\<forall>(k, obj, b) \<in> set (inputs (mods s v) @ outputs (mods s v)).
            (\<forall>d. b \<noteq> Dim d) \<longrightarrow> resolve_binding (vmaps s4 vm) b = b"
  proof (intro ballI, clarify)
    fix k obj b
    assume "\<forall>d. b \<noteq> Dim d"
    then show "resolve_binding (vmaps s4 vm) b = b"
      by (cases b) (simp_all add: resolve_binding_def)
  qed
  have c_mono: "\<forall>d h. map_of (vmaps s vm) d = Some h \<longrightarrow> map_of (vmaps s4 vm) d = Some h"
    using i5 o5 vmaps2 by simp
  have c_others: "\<forall>vm'. vm' \<noteq> vm \<longrightarrow> vmaps s4 vm' = vmaps s vm'"
    using i4 o4 vmaps2 by simp
  have "vocabs (mods s4 P) = vocabs (mods s3 P)"
    unfolding o2 by simp
  with voc3 have c_voc: "vocabs (mods s4 P) = vm"
    by simp
  from call c_reg c_in c_out c_goc c_other c_mono c_others c_voc
  show ?thesis
    unfolding vm_def by (intro exI[of _ s4] conjI)
qed

theorem set_module_resolves_ports_then_on_add_witness:
  "set_module base_on_add reg_state 0 ''vision'' 1 =
     base_on_add 1 0 (snd (set_module base_on_add reg_state 0 ''vision'' 1))
   \<and> dict_get (modules (mods (snd (set_module base_on_add reg_state 0 ''vision'' 1)) 0))
        ''vision'' = Some 1
   \<and> inputs (mods (snd (set_module base_on_add reg_state 0 ''vision'' 1)) 1) =
       [(''default'', (10, Voc 0)), (''aux'', (11, NoVocab))]
   \<and> outputs (mods (snd (set_module base_on_add reg_state 0 ''vision'' 1)) 1) =
       [(''default'', (12, Voc 1)), (''copy'', (13, Voc 0))]
   \<and> vmaps (snd (set_module base_on_add reg_state 0 ''vision'' 1)) 0 = [(16, 0), (32, 1)]
   \<and> vmaps (snd (set_module base_on_add reg_state 0 ''vision'' 1)) 1 = vmaps reg_state 1"
proof -
  have ins: "inputs (mods reg_state 1) = [(''default'', (10, Dim 16)), (''aux'', (11, NoVocab))]"
    and outs: "outputs (mods reg_state 1) = [(''default'', (12, Dim 32)), (''copy'', (13, Dim 16))]"
    and voc: "vocabs (mods reg_state 0) = 0"
    by (simp_all add: reg_state_def blank_module_def)
  have h1: "distinct (map fst (inputs (mods reg_state 1)))"
    unfolding ins by simp
  have h2: "distinct (map fst (outputs (mods reg_state 1)))"
    unfolding outs by simp
  have h3: "\<forall>(k, obj, b) \<in> set (inputs (mods reg_state 1) @ outputs (mods reg_state 1)).
           \<forall>d. b = Dim d \<longrightarrow> 1 \<le> d"
    unfolding ins outs by simp
  from set_module_resolves_ports_then_on_add[OF h1 h2 h3, of base_on_add 0 "''vision''"]
  obtain s' where
    s': "set_module base_on_add reg_state 0 ''vision'' 1 = base_on_add 1 0 s'"
      "dict_get (modules (mods s' 0)) ''vision'' = Some 1"
      "inputs (mods s' 1) = map (resolve_port (vmaps s' 0)) (inputs (mods reg_state 1))"
      "outputs (mods s' 1) = map (resolve_port (vmaps s' 0)) (outputs (mods reg_state 1))"
      "\<forall>vm'. vm' \<noteq> 0 \<longrightarrow> vmaps s' vm' = vmaps reg_state vm'"
    unfolding voc by blast
  have final: "snd (set_module base_on_add reg_state 0 ''vision'' 1) = s'"
    using s'(1) by (simp add: base_on_add_def)
  have tab: "vmaps (snd (set_module base_on_add reg_state 0 ''vision'' 1)) 0 = [(16, 0), (32, 1)]"
    by (simp add: set_module_def update_module_def get_or_create_def base_on_add_def
        reg_state_def blank_module_def Let_def)
  have tab': "vmaps s' 0 = [(16, 0), (32, 1)]"
    using tab final by simp
  have i: "inputs (mods s' 1) = [(''default'', (10, Voc 0)), (''aux'', (11, NoVocab))]"
    unfolding s'(3) tab' ins by (simp add: resolve_port_def resolve_binding_def)
  have out: "outputs (mods s' 1) = [(''default'', (12, Voc 1)), (''copy'', (13, Voc 0))]"
    unfolding s'(4) tab' outs by (simp add: resolve_port_def resolve_binding_def)
  have own: "vmaps s' 1 = vmaps reg_state 1"
    using s'(5) by simp
  from s'(1,2) i out tab' own show ?thesis
    unfolding final by (intro conjI)
qed

end
